theory Spec2Isabelle
  imports Main "HOL-Library.Word"
begin

section \<open>Configuration documents\<close>

text \<open>
  A value of a loaded TOML document, with the Go types the TOML library stores:
  \<^verbatim>\<open>string\<close>, \<^verbatim>\<open>int64\<close>, \<^verbatim>\<open>uint64\<close>, \<^verbatim>\<open>float64\<close> (its 64 bits),
  \<^verbatim>\<open>bool\<close>, a time (its text), a list of values and a table. A table is the list of
  its keys with their values.
\<close>

datatype toml =
    TString string
  | TInt "64 word"
  | TUint "64 word"
  | TFloat "64 word"
  | TBool bool
  | TTime string
  | TList "toml list"
  | TTree "(string \<times> toml) list"

type_synonym tree = "(string \<times> toml) list"

section \<open>The CDI modifier (internal/modifier/cdi.go)\<close>

subsection \<open>Errors and diagnostics\<close>

text \<open>
  A Go \<^verbatim>\<open>error\<close> is one of: an error that a collaborator returned (\<open>'e\<close> is the
  type of those), an error made by \<^verbatim>\<open>fmt.Errorf\<close> from a fixed text, an error made by
  \<^verbatim>\<open>fmt.Errorf("text: %v", err)\<close> around another error, and an error made by
  \<^verbatim>\<open>fmt.Errorf("text: %v", v)\<close> around a value of a document.
\<close>

datatype 'e error =
    Collab 'e
  | New string
  | Errorf string "'e error"
  | ErrorfValue string toml

text \<open>
  Besides its results a function of the source only writes to the logger. Every call of
  the logger in the source is one entry of the list of diagnostics that the model
  returns, in the order of the calls.
\<close>

datatype 'e diagnostic =
    Debug_IgnoringDuplicate string
  | Debug_NoDevicesRequested
  | Debug_CreatingModifier "string list"
  | Warning_IgnoringDevices "string list"
  | Debug_RefreshError "'e error"
  | Debug_Injecting "string list"
  | Info_LoadingConfig string
  | Info_ConfigDoesNotExist
  | Info_LoadedConfig

subsection \<open>Configuration and collaborators\<close>

text \<open>The fields of \<^verbatim>\<open>config.Config\<close> that the modifier reads.\<close>

record config =
  AcceptEnvvarUnprivileged :: bool
  DefaultKind :: string
  SpecDirs :: "string list"

text \<open>
  The raw OCI specification: the resolver reads its annotations itself and hands the
  whole specification to the image package.
\<close>

record rawSpec =
  Annotations :: "(string \<times> string) list"
  ProcessEnv :: "string list"
  Capabilities :: "string list"

text \<open>
  The functions of other packages that \<^verbatim>\<open>getDevicesFromSpec\<close> calls are parameters:
  \<^verbatim>\<open>cdi.ParseAnnotations\<close>, \<^verbatim>\<open>cdi.IsQualifiedName\<close>,
  \<^verbatim>\<open>image.NewCUDAImageFromSpec\<close>, \<^verbatim>\<open>CUDA.DevicesFromEnvvars(..).List()\<close> and
  \<^verbatim>\<open>image.IsPrivileged\<close>. The type \<open>'img\<close> is the CUDA image.
\<close>

record ('e, 'img) collaborators =
  ParseAnnotations :: "(string \<times> string) list \<Rightarrow> 'e + (string list \<times> string list)"
  IsQualifiedName :: "string \<Rightarrow> bool"
  NewCUDAImageFromSpec :: "rawSpec \<Rightarrow> 'e + 'img"
  DevicesFromEnvvars :: "'img \<Rightarrow> string \<Rightarrow> string list"
  IsPrivileged :: "rawSpec \<Rightarrow> bool"

text \<open>
  Modelled from the spec: the constant \<^verbatim>\<open>visibleDevicesEnvvar\<close> is declared in a file
  of the package that is not part of the sources at hand; the doc comment of
  \<^verbatim>\<open>NewCDIModifier\<close> and the warning of \<^verbatim>\<open>getDevicesFromSpec\<close> name the variable.
\<close>

definition visibleDevicesEnvvar :: string where
  "visibleDevicesEnvvar = ''NVIDIA_VISIBLE_DEVICES''"

subsection \<open>getDevicesFromSpec\<close>

text \<open>
  The loop over \<^verbatim>\<open>envDevices.List()\<close> (cdi.go, lines 84 to 95). The state of the loop is
  the map \<^verbatim>\<open>seen\<close>, the slice \<^verbatim>\<open>devices\<close> and the diagnostics so far. The source
  creates \<^verbatim>\<open>seen\<close> empty and reads it at every iteration; no statement of the loop
  writes to it, so the model passes it on unchanged.
\<close>

definition qualify :: "(string \<Rightarrow> bool) \<Rightarrow> string \<Rightarrow> string \<Rightarrow> string" where
  "qualify isQualified kind name =
     (if \<not> isQualified name then kind @ ''='' @ name else name)"

fun envLoop ::
  "(string \<Rightarrow> bool) \<Rightarrow> string \<Rightarrow> string list \<Rightarrow> (string \<Rightarrow> bool) \<Rightarrow> string list \<Rightarrow>
   'e diagnostic list \<Rightarrow> string list \<times> 'e diagnostic list" where
  "envLoop isQualified kind [] seen devs lg = (devs, lg)"
| "envLoop isQualified kind (name0 # rest) seen devs lg =
     (let name = qualify isQualified kind name0 in
      if seen name
      then envLoop isQualified kind rest seen devs (lg @ [Debug_IgnoringDuplicate name])
      else envLoop isQualified kind rest seen (devs @ [name]) lg)"

text \<open>
  The result is the pair of Go results, \<open>Inl\<close> for a non-nil error and \<open>Inr\<close> for the
  slice (a nil slice is the empty list), together with the diagnostics logged.
  The second argument is the outcome of \<^verbatim>\<open>ociSpec.Load()\<close>.
\<close>

definition getDevicesFromSpec ::
  "('e, 'img) collaborators \<Rightarrow> 'e + rawSpec \<Rightarrow> config \<Rightarrow>
   ('e error + string list) \<times> 'e diagnostic list" where
  "getDevicesFromSpec ext ociSpec cfg =
     (case ociSpec of
        Inl err \<Rightarrow> (Inl (Errorf ''failed to load OCI spec'' (Collab err)), [])
      | Inr raw \<Rightarrow>
          (case ParseAnnotations ext (Annotations raw) of
             Inl err \<Rightarrow>
               (Inl (Errorf ''failed to parse container annotations'' (Collab err)), [])
           | Inr (unqualified, annotationDevices) \<Rightarrow>
               if length annotationDevices > 0 then (Inr annotationDevices, [])
               else
                 (case NewCUDAImageFromSpec ext raw of
                    Inl err \<Rightarrow> (Inl (Collab err), [])
                  | Inr container \<Rightarrow>
                      (let envDevices = DevicesFromEnvvars ext container visibleDevicesEnvvar;
                           (devs, lg) =
                              envLoop (IsQualifiedName ext) (DefaultKind cfg) envDevices
                                (\<lambda>_. False) [] []
                       in if length devs = 0 then (Inr [], lg)
                          else if AcceptEnvvarUnprivileged cfg \<or> IsPrivileged ext raw
                          then (Inr devs, lg)
                          else (Inr [], lg @ [Warning_IgnoringDevices devs])))))"

subsection \<open>NewCDIModifier and Modify\<close>

record cdiModifier =
  specDirs :: "string list"
  devices :: "string list"

text \<open>
  \<^verbatim>\<open>cdi.DefaultSpecDirs\<close> belongs to the CDI library and is a parameter. A nil modifier
  is \<open>None\<close>.
\<close>

definition NewCDIModifier ::
  "('e, 'img) collaborators \<Rightarrow> string list \<Rightarrow> config \<Rightarrow> 'e + rawSpec \<Rightarrow>
   ('e error + cdiModifier option) \<times> 'e diagnostic list" where
  "NewCDIModifier ext DefaultSpecDirs cfg ociSpec =
     (case getDevicesFromSpec ext ociSpec cfg of
        (Inl err, lg) \<Rightarrow>
          (Inl (Errorf ''failed to get required devices from OCI specification'' err), lg)
      | (Inr devs, lg) \<Rightarrow>
          if length devs = 0 then (Inr None, lg @ [Debug_NoDevicesRequested])
          else
            (let dirs = (if length (SpecDirs cfg) > 0 then SpecDirs cfg else DefaultSpecDirs)
             in (Inr (Some \<lparr>specDirs = dirs, devices = devs\<rparr>),
                 lg @ [Debug_CreatingModifier devs])))"

text \<open>
  The registry of the CDI library: \<open>'reg\<close> is its state and \<open>'spec\<close> the OCI
  specification it edits. \<^verbatim>\<open>Refresh\<close> returns its error, if any, and the state after the
  refresh; \<^verbatim>\<open>InjectDevices\<close> returns its second result (\<open>Inl\<close> the error, \<open>Inr\<close> the
  list of unresolved devices) and the specification as it has left it.
\<close>

record ('e, 'reg, 'spec) registry =
  GetRegistry :: "string list \<Rightarrow> bool \<Rightarrow> 'reg"
  Refresh :: "'reg \<Rightarrow> 'e option \<times> 'reg"
  InjectDevices :: "'reg \<Rightarrow> 'spec \<Rightarrow> string list \<Rightarrow> ('e + string list) \<times> 'spec"

text \<open>
  \<^verbatim>\<open>Modify\<close> returns its error (\<open>None\<close> for nil), the specification after the call and
  the diagnostics.
\<close>

definition Modify ::
  "('e, 'reg, 'spec) registry \<Rightarrow> cdiModifier \<Rightarrow> 'spec \<Rightarrow>
   'e error option \<times> 'spec \<times> 'e diagnostic list" where
  "Modify cdi m spec =
     (let reg = GetRegistry cdi (specDirs m) False;
          (rerr, reg') = Refresh cdi reg;
          lg = (case rerr of None \<Rightarrow> [] | Some err \<Rightarrow> [Debug_RefreshError (Collab err)])
               @ [Debug_Injecting (devices m)];
          (res, spec') = InjectDevices cdi reg' spec (devices m)
      in case res of
           Inl err \<Rightarrow> (Some (Errorf ''failed to inject CDI devices'' (Collab err)), spec', lg)
         | Inr _ \<Rightarrow> (None, spec', lg))"

subsection \<open>A sample of the collaborators\<close>

text \<open>
  Modelled from the spec: the collaborators are not part of the sources at hand. To run
  the resolver on a concrete specification the parameters need values; this sample
  follows the glossary and section 4.1 and 6 of the specification. A qualified name has
  the form \<^verbatim>\<open>vendor/class=name\<close>; the devices of the annotations are the values under
  the keys that begin with \<^verbatim>\<open>cdi.k8s.io/\<close>; the image is the environment of the
  process, and the devices of a variable are the parts of its value between commas; a
  container is privileged when it has the capability \<^verbatim>\<open>CAP_SYS_ADMIN\<close>.
\<close>

definition isQualifiedForm :: "string \<Rightarrow> bool" where
  "isQualifiedForm s =
     (let kind = takeWhile (\<lambda>c. c \<noteq> CHR ''='') s;
          name = drop (length kind + 1) s;
          vendor = takeWhile (\<lambda>c. c \<noteq> CHR ''/'') kind;
          class = drop (length vendor + 1) kind
      in vendor \<noteq> [] \<and> class \<noteq> [] \<and> name \<noteq> [])"

fun splitOn :: "char \<Rightarrow> string \<Rightarrow> string \<Rightarrow> string list" where
  "splitOn sep cur [] = [cur]"
| "splitOn sep cur (c # cs) =
     (if c = sep then cur # splitOn sep [] cs else splitOn sep (cur @ [c]) cs)"

fun lookupEnv :: "string list \<Rightarrow> string \<Rightarrow> string option" where
  "lookupEnv [] v = None"
| "lookupEnv (e # es) v =
     (if take (length v + 1) e = v @ ''='' then Some (drop (length v + 1) e)
      else lookupEnv es v)"

definition sampleCollaborators :: "(string, string list) collaborators" where
  "sampleCollaborators =
     \<lparr>ParseAnnotations = (\<lambda>anns.
         let ds = concat (map (\<lambda>(k, v). if take 11 k = ''cdi.k8s.io/''
                                          then splitOn CHR '','' [] v else []) anns)
         in if list_all isQualifiedForm ds then Inr ([], ds)
            else Inl ''invalid device''),
      IsQualifiedName = isQualifiedForm,
      NewCUDAImageFromSpec = (\<lambda>raw. Inr (ProcessEnv raw)),
      DevicesFromEnvvars = (\<lambda>img v. case lookupEnv img v of
                                        None \<Rightarrow> []
                                      | Some s \<Rightarrow> filter (\<lambda>d. d \<noteq> []) (splitOn CHR '','' [] s)),
      IsPrivileged = (\<lambda>raw. ''CAP_SYS_ADMIN'' \<in> set (Capabilities raw))\<rparr>"

definition sampleConfig :: config where
  "sampleConfig =
     \<lparr>AcceptEnvvarUnprivileged = False, DefaultKind = ''nvidia.com/gpu'', SpecDirs = []\<rparr>"

definition sampleSpec :: "(string \<times> string) list \<Rightarrow> string \<Rightarrow> string list \<Rightarrow> rawSpec" where
  "sampleSpec anns visible caps =
     \<lparr>Annotations = anns,
      ProcessEnv = [''PATH=/usr/bin'', ''NVIDIA_VISIBLE_DEVICES='' @ visible],
      Capabilities = caps\<rparr>"

section \<open>Loading the containerd configuration\<close>

subsection \<open>Reading a document\<close>

text \<open>
  Modelled from the spec: the accessors \<^verbatim>\<open>Get\<close>, \<^verbatim>\<open>GetPath\<close> and \<^verbatim>\<open>Keys\<close> of the
  configuration document belong to the TOML library. Following section 4.3 and 6 of the
  specification, \<^verbatim>\<open>GetPath\<close> follows the keys through tables and yields the value
  there, or nothing (\<open>None\<close>, Go's nil) when a key is missing or the way leads through a
  value that is no table; \<^verbatim>\<open>Get\<close> takes the keys joined by dots, and the document
  itself for the empty key; \<^verbatim>\<open>Keys\<close> lists the top-level keys.
\<close>

fun GetPath :: "tree \<Rightarrow> string list \<Rightarrow> toml option" where
  "GetPath t [] = Some (TTree t)"
| "GetPath t [k] = map_of t k"
| "GetPath t (k # ks) =
     (case map_of t k of Some (TTree sub) \<Rightarrow> GetPath sub ks | _ \<Rightarrow> None)"

definition Get :: "tree \<Rightarrow> string \<Rightarrow> toml option" where
  "Get t key = (if key = [] then Some (TTree t) else GetPath t (splitOn CHR ''.'' [] key))"

definition Keys :: "tree \<Rightarrow> string list" where
  "Keys t = map fst t"

subsection \<open>loadConfig and parseVersion\<close>

text \<open>
  The struct \<^verbatim>\<open>Config\<close> embeds the document; \<^verbatim>\<open>build\<close> and the tests name its other
  two fields. \<^verbatim>\<open>ConfigV1\<close> is the same struct under another name.
\<close>

record Config =
  Tree :: tree
  RuntimeType :: string
  UseDefaultRuntimeName :: bool

text \<open>
  \<^verbatim>\<open>os.Stat\<close> returns either the file information and a nil error, or no information
  and an error. \<^verbatim>\<open>os.IsExist\<close> and \<^verbatim>\<open>os.IsNotExist\<close> classify an error of the
  operating system and are false of a nil error. The file system is the pair of
  functions \<^verbatim>\<open>Stat\<close> and \<^verbatim>\<open>LoadFile\<close>.
\<close>

record fileInfo =
  IsDir :: bool

datatype 'e stat = StatInfo fileInfo | StatError 'e

record 'e os =
  Stat :: "string \<Rightarrow> 'e stat"
  IsExist :: "'e \<Rightarrow> bool"
  IsNotExist :: "'e \<Rightarrow> bool"
  LoadFile :: "string \<Rightarrow> 'e + tree"

text \<open>
  A call either returns or panics: \<^verbatim>\<open>info.IsDir()\<close> on the nil information that comes
  with an error is a nil dereference.
\<close>

datatype 'a outcome = Returns 'a | Panics

text \<open>Lines 228 to 244 of \<^verbatim>\<open>loadConfig\<close>, after the test for a directory.\<close>

definition loadTree ::
  "'e os \<Rightarrow> string \<Rightarrow> 'e option \<Rightarrow> 'e diagnostic list \<Rightarrow>
   ('e error + Config) outcome \<times> 'e diagnostic list" where
  "loadTree sys config err lg =
     (let notExist = (case err of None \<Rightarrow> False | Some e \<Rightarrow> IsNotExist sys e);
          configFile = (if notExist then ''/dev/null'' else config);
          lg' = (if notExist then lg @ [Info_ConfigDoesNotExist] else lg)
      in case LoadFile sys configFile of
           Inl e \<Rightarrow> (Returns (Inl (Collab e)), lg')
         | Inr tomlConfig \<Rightarrow>
             (Returns (Inr \<lparr>Tree = tomlConfig, RuntimeType = [],
                             UseDefaultRuntimeName = False\<rparr>),
              lg' @ [Info_LoadedConfig]))"

text \<open>
  Lines 223 to 226. The two results of \<^verbatim>\<open>os.Stat\<close> are \<^verbatim>\<open>info\<close> and \<^verbatim>\<open>err\<close>, each
  nil (\<open>None\<close>) or not. The operator \<^verbatim>\<open>&&\<close> evaluates \<^verbatim>\<open>info.IsDir()\<close> only when
  \<^verbatim>\<open>os.IsExist(err)\<close> holds, and the call panics on a nil \<^verbatim>\<open>info\<close>.
\<close>

fun statResults :: "'e stat \<Rightarrow> fileInfo option \<times> 'e option" where
  "statResults (StatInfo info) = (Some info, None)"
| "statResults (StatError e) = (None, Some e)"

definition loadConfig ::
  "'e os \<Rightarrow> string \<Rightarrow> ('e error + Config) outcome \<times> 'e diagnostic list" where
  "loadConfig sys config =
     (let lg = [Info_LoadingConfig config];
          (info, err) = statResults (Stat sys config)
      in if (case err of None \<Rightarrow> False | Some e \<Rightarrow> IsExist sys e)
         then (case info of
                 None \<Rightarrow> (Panics, lg)
               | Some i \<Rightarrow>
                   if IsDir i then (Returns (Inl (New ''config file is a directory'')), lg)
                   else loadTree sys config err lg)
         else loadTree sys config err lg)"

text \<open>
  \<^verbatim>\<open>parseVersion\<close>: Go's \<^verbatim>\<open>int\<close> has 64 bits on the platforms of the toolkit, so
  \<^verbatim>\<open>int(v)\<close> of an \<^verbatim>\<open>int64\<close> is its value. The error carries the value that \<^verbatim>\<open>%v\<close>
  prints.
\<close>

definition parseVersion :: "Config \<Rightarrow> bool \<Rightarrow> 'e error + int" where
  "parseVersion c useLegacyConfig =
     (let defaultVersion = (if useLegacyConfig then 1 else 2) in
      case Get (Tree c) ''version'' of
        None \<Rightarrow>
          (case length (Keys (Tree c)) of
             0 \<Rightarrow> Inr defaultVersion
           | _ \<Rightarrow> Inr 1)
      | Some (TInt v) \<Rightarrow> Inr (sint v)
      | Some v \<Rightarrow> Inl (ErrorfValue ''unsupported type for version field'' v))"

section \<open>Updating and reverting the containerd configuration\<close>

subsection \<open>Writing a document\<close>

text \<open>
  Modelled from the spec: \<^verbatim>\<open>SetPath\<close> and \<^verbatim>\<open>DeletePath\<close> of the configuration document
  belong to the TOML library. Following section 4.3 of the specification, \<^verbatim>\<open>SetPath\<close>
  stores a value at a path, keeping every other key and the order of the keys: a key
  that exists keeps its place, a new key goes to the end, and a table is made where the
  path has none. \<^verbatim>\<open>DeletePath\<close> removes the key at the end of a path if the path
  exists.
\<close>

fun setKey :: "string \<Rightarrow> toml \<Rightarrow> tree \<Rightarrow> tree" where
  "setKey k v [] = [(k, v)]"
| "setKey k v ((k', v') # t) = (if k' = k then (k, v) # t else (k', v') # setKey k v t)"

definition deleteKey :: "string \<Rightarrow> tree \<Rightarrow> tree" where
  "deleteKey k t = filter (\<lambda>kv. fst kv \<noteq> k) t"

definition subtree :: "tree \<Rightarrow> string \<Rightarrow> tree" where
  "subtree t k = (case map_of t k of Some (TTree sub) \<Rightarrow> sub | _ \<Rightarrow> [])"

fun SetPath :: "tree \<Rightarrow> string list \<Rightarrow> toml \<Rightarrow> tree" where
  "SetPath t [] v = t"
| "SetPath t [k] v = setKey k v t"
| "SetPath t (k # ks) v = setKey k (TTree (SetPath (subtree t k) ks v)) t"

fun DeletePath :: "tree \<Rightarrow> string list \<Rightarrow> tree" where
  "DeletePath t [] = t"
| "DeletePath t [k] = deleteKey k t"
| "DeletePath t (k # ks) =
     (case map_of t k of
        Some (TTree sub) \<Rightarrow> setKey k (TTree (DeletePath sub ks)) t
      | _ \<Rightarrow> t)"

subsection \<open>The runtimes to configure\<close>

text \<open>The options of the command, as the tests build them.\<close>

record options =
  useLegacyConfig :: bool
  setAsDefault :: bool
  runtimeClass :: string
  runtimeType :: string
  runtimeDir :: string

record runtime =
  runtimeName :: string
  runtimePath :: string
  runtimeDefault :: bool

text \<open>
  Modelled from the spec: the table of runtimes that \<^verbatim>\<open>UpdateConfig\<close> and
  \<^verbatim>\<open>RevertConfig\<close> go through is not part of the sources at hand. Section 4.4 and 9 of
  the specification give the names (\<^verbatim>\<open>nvidia\<close>, \<^verbatim>\<open>nvidia-experimental\<close>,
  \<^verbatim>\<open>nvidia-cdi\<close>, \<^verbatim>\<open>nvidia-legacy\<close>), the static ordered table of suffixes and
  the fallback of an empty \<^verbatim>\<open>runtimeClass\<close> to \<^verbatim>\<open>nvidia\<close>. The tables of
  \<^verbatim>\<open>TestUpdateV1Config\<close> and \<^verbatim>\<open>TestUpdateV1ConfigDefaultRuntime\<close> give the rest: the
  binary of a runtime is \<^verbatim>\<open>nvidia-container-runtime\<close> with the suffix of its mode under
  \<^verbatim>\<open>runtimeDir\<close>; a \<^verbatim>\<open>runtimeClass\<close> that is no mode names the entry of the plain
  binary; the runtime selected as default is the one named \<^verbatim>\<open>runtimeClass\<close>.
\<close>

definition defaultRuntimeName :: string where
  "defaultRuntimeName = ''nvidia''"

definition runtimeModes :: "string list" where
  "runtimeModes = [''experimental'', ''cdi'', ''legacy'']"

definition modeRuntimeName :: "string \<Rightarrow> string" where
  "modeRuntimeName mode = ''nvidia-'' @ mode"

definition nvidiaRuntimeName :: "options \<Rightarrow> string" where
  "nvidiaRuntimeName opts =
     (if runtimeClass opts = [] then defaultRuntimeName else runtimeClass opts)"

definition binaryPath :: "string \<Rightarrow> string \<Rightarrow> string" where
  "binaryPath root binary = root @ ''/'' @ binary"

definition plainRuntimeName :: "options \<Rightarrow> string" where
  "plainRuntimeName opts =
     (if nvidiaRuntimeName opts \<in> set (map modeRuntimeName runtimeModes)
      then defaultRuntimeName else nvidiaRuntimeName opts)"

definition newRuntime :: "options \<Rightarrow> string \<Rightarrow> string \<Rightarrow> runtime" where
  "newRuntime opts n binary =
     \<lparr>runtimeName = n, runtimePath = binaryPath (runtimeDir opts) binary,
      runtimeDefault = (setAsDefault opts \<and> n = nvidiaRuntimeName opts)\<rparr>"

definition GetRuntimes :: "options \<Rightarrow> runtime list" where
  "GetRuntimes opts =
     newRuntime opts (plainRuntimeName opts) ''nvidia-container-runtime''
     # map (\<lambda>mode. newRuntime opts (modeRuntimeName mode) (''nvidia-container-runtime.'' @ mode))
         runtimeModes"

subsection \<open>Update\<close>

text \<open>
  Modelled from the spec: the method \<^verbatim>\<open>AddRuntime\<close> of \<^verbatim>\<open>ConfigV1\<close>, which
  \<^verbatim>\<open>UpdateConfig\<close> calls for every runtime, is not part of the sources at hand. After
  section 4.4 of the specification it writes the entry of the runtime under
  \<^verbatim>\<open>plugins.cri.containerd.runtimes\<close>: the entry of \<^verbatim>\<open>runc\<close> if the document has one,
  with \<^verbatim>\<open>BinaryName\<close> and \<^verbatim>\<open>Runtime\<close> set to the binary and tagged with
  \<^verbatim>\<open>container_annotations\<close>. Three points come from the tests, which are part of the
  sources:
  \<^item> the document gets \<^verbatim>\<open>version = 1\<close>, and without a \<^verbatim>\<open>runc\<close> entry the fields are
    the runtime type of the configuration, two empty strings and \<^verbatim>\<open>false\<close>
    (\<^verbatim>\<open>TestUpdateV1Config\<close>);
  \<^item> the entry of \<^verbatim>\<open>runc\<close> is taken over whole, its \<^verbatim>\<open>runtime_type\<close> included
    (\<^verbatim>\<open>TestUpdateV1ConfigWithRuncPresent\<close>);
  \<^item> the default runtime is written as the name under \<^verbatim>\<open>default_runtime_name\<close> when
    \<^verbatim>\<open>UseDefaultRuntimeName\<close> is set, and otherwise as the entry, without its
    \<^verbatim>\<open>container_annotations\<close>, under \<^verbatim>\<open>default_runtime\<close>
    (\<^verbatim>\<open>TestUpdateV1ConfigDefaultRuntime\<close>, \<^verbatim>\<open>defaultRuntimeV1\<close>).
\<close>

definition containerdPath :: "string list" where
  "containerdPath = [''plugins'', ''cri'', ''containerd'']"

definition runtimesPath :: "string list" where
  "runtimesPath = containerdPath @ [''runtimes'']"

definition defaultEntry :: "string \<Rightarrow> tree" where
  "defaultEntry rtype =
     [(''runtime_type'', TString rtype),
      (''runtime_root'', TString []),
      (''runtime_engine'', TString []),
      (''privileged_without_host_devices'', TBool False)]"

definition inheritedEntry :: "tree \<Rightarrow> string \<Rightarrow> tree" where
  "inheritedEntry t rtype =
     (case GetPath t (runtimesPath @ [''runc'']) of
        Some (TTree runc) \<Rightarrow> runc
      | _ \<Rightarrow> defaultEntry rtype)"

definition runtimeEntry :: "tree \<Rightarrow> string \<Rightarrow> tree" where
  "runtimeEntry inherited path =
     SetPath
       (SetPath
          (SetPath inherited [''container_annotations''] (TList [TString ''cdi.k8s.io/*'']))
          [''options'', ''BinaryName''] (TString path))
       [''options'', ''Runtime''] (TString path)"

definition AddRuntime :: "Config \<Rightarrow> string \<Rightarrow> string \<Rightarrow> bool \<Rightarrow> Config" where
  "AddRuntime c name path dflt =
     (let t1 = SetPath (Tree c) [''version''] (TInt 1);
          entry = runtimeEntry (inheritedEntry t1 (RuntimeType c)) path;
          t2 = SetPath t1 (runtimesPath @ [name]) (TTree entry);
          t3 = (if dflt
                then (if UseDefaultRuntimeName c
                      then SetPath t2 (containerdPath @ [''default_runtime_name''])
                             (TString name)
                      else SetPath t2 (containerdPath @ [''default_runtime''])
                             (TTree (deleteKey ''container_annotations'' entry)))
                else t2)
      in c\<lparr>Tree := t3\<rparr>)"

text \<open>
  Modelled from the spec: the function \<^verbatim>\<open>UpdateConfig\<close>, which the tests call, is not
  part of the sources at hand. After section 4.4 of the specification it writes the
  entry of every runtime of the table, in the order of the table.
\<close>

definition addRuntimes :: "Config \<Rightarrow> runtime list \<Rightarrow> Config" where
  "addRuntimes c rs =
     foldl (\<lambda>c' r. AddRuntime c' (runtimeName r) (runtimePath r) (runtimeDefault r)) c rs"

definition UpdateConfig :: "Config \<Rightarrow> options \<Rightarrow> Config" where
  "UpdateConfig c opts = addRuntimes c (GetRuntimes opts)"

subsection \<open>Revert\<close>

text \<open>
  Modelled from the spec: the method \<^verbatim>\<open>RemoveRuntime\<close> of \<^verbatim>\<open>ConfigV1\<close>, which
  \<^verbatim>\<open>RevertConfig\<close> calls for every runtime, is not part of the sources at hand. After
  section 4.4 of the specification it deletes the entry of the runtime, and the default
  runtime if it points at the runtime: \<^verbatim>\<open>default_runtime_name\<close> if it is the name,
  \<^verbatim>\<open>default_runtime\<close> if it has the binary of the entry. The table of
  \<^verbatim>\<open>TestRevertV1Config\<close> expects the empty document from a document that holds the
  version and the four entries, and from one that holds only the version: the tables
  that the deletion leaves empty go, from \<^verbatim>\<open>runtimes\<close> up to \<^verbatim>\<open>plugins\<close>, and so does
  a \<^verbatim>\<open>version\<close> that is the only key left.
\<close>

definition binaryName :: "toml option \<Rightarrow> string option" where
  "binaryName entry =
     (case entry of
        Some (TTree e) \<Rightarrow>
          (case GetPath e [''options'', ''BinaryName''] of
             Some (TString s) \<Rightarrow> Some s
           | _ \<Rightarrow> None)
      | _ \<Rightarrow> None)"

definition pruneEmpty :: "tree \<Rightarrow> string list \<Rightarrow> tree" where
  "pruneEmpty t path = (if GetPath t path = Some (TTree []) then DeletePath t path else t)"

definition RemoveRuntime :: "Config \<Rightarrow> string \<Rightarrow> Config" where
  "RemoveRuntime c name =
     (let t = Tree c;
          t1 = (case (binaryName (GetPath t (runtimesPath @ [name])),
                      binaryName (GetPath t (containerdPath @ [''default_runtime'']))) of
                  (Some a, Some b) \<Rightarrow>
                    if a = b then DeletePath t (containerdPath @ [''default_runtime'']) else t
                | _ \<Rightarrow> t);
          t2 = DeletePath t1 (runtimesPath @ [name]);
          t3 = (if GetPath t2 (containerdPath @ [''default_runtime_name''])
                     = Some (TString name)
                then DeletePath t2 (containerdPath @ [''default_runtime_name''])
                else t2);
          t4 = foldl pruneEmpty t3
                 [runtimesPath, containerdPath, [''plugins'', ''cri''], [''plugins'']];
          t5 = (if Keys t4 = [''version''] then deleteKey ''version'' t4 else t4)
      in c\<lparr>Tree := t5\<rparr>)"

text \<open>
  Modelled from the spec: the function \<^verbatim>\<open>RevertConfig\<close>, which the tests call, is not
  part of the sources at hand. After section 4.4 of the specification it removes every
  runtime of the table, in the order of the table.
\<close>

definition removeRuntimes :: "Config \<Rightarrow> runtime list \<Rightarrow> Config" where
  "removeRuntimes c rs = foldl (\<lambda>c' r. RemoveRuntime c' (runtimeName r)) c rs"

definition RevertConfig :: "Config \<Rightarrow> options \<Rightarrow> Config" where
  "RevertConfig c opts = removeRuntimes c (GetRuntimes opts)"

subsection \<open>Paths and documents, for the proofs\<close>

text \<open>
  Two paths part ways when they differ at a key that both have: writing at one of them
  leaves the value at the other alone.
\<close>

fun diverge :: "string list \<Rightarrow> string list \<Rightarrow> bool" where
  "diverge (a # p) (b # q) = (a \<noteq> b \<or> diverge p q)"
| "diverge _ _ = False"

text \<open>
  The document that holds version 1, the runtime entries \<open>rs\<close> and, next to them in the
  table \<^verbatim>\<open>plugins.cri.containerd\<close>, the keys \<open>d\<close>.
\<close>

definition configDocument :: "tree \<Rightarrow> tree \<Rightarrow> tree" where
  "configDocument rs d =
     [(''version'', TInt 1),
      (''plugins'', TTree
         [(''cri'', TTree
            [(''containerd'', TTree ((''runtimes'', TTree rs) # d))])])]"

text \<open>
  What \<^verbatim>\<open>AddRuntime\<close> does to the keys \<open>d\<close> next to the runtime entries, and what
  \<^verbatim>\<open>RemoveRuntime\<close> does to them.
\<close>

definition defaultKeys :: "Config \<Rightarrow> string \<Rightarrow> tree \<Rightarrow> bool \<Rightarrow> tree \<Rightarrow> tree" where
  "defaultKeys c n e dflt d =
     (if dflt
      then (if UseDefaultRuntimeName c
            then setKey ''default_runtime_name'' (TString n) d
            else setKey ''default_runtime''
                   (TTree (deleteKey ''container_annotations'' e)) d)
      else d)"

definition dropDefaultRuntime :: "string \<Rightarrow> tree \<Rightarrow> tree \<Rightarrow> tree" where
  "dropDefaultRuntime n rs d =
     (case (binaryName (map_of rs n), binaryName (map_of d ''default_runtime'')) of
        (Some a, Some b) \<Rightarrow> if a = b then deleteKey ''default_runtime'' d else d
      | _ \<Rightarrow> d)"

definition dropDefaultName :: "string \<Rightarrow> tree \<Rightarrow> tree" where
  "dropDefaultName n d =
     (if map_of d ''default_runtime_name'' = Some (TString n)
      then deleteKey ''default_runtime_name'' d else d)"

text \<open>
  The keys that an update of the empty document leaves next to the runtime entries:
  none, or the name of one of the runtimes \<open>N\<close>, or an entry with one of the binaries
  \<open>P\<close>.
\<close>

definition defaultForm :: "bool \<Rightarrow> string set \<Rightarrow> string set \<Rightarrow> tree \<Rightarrow> bool" where
  "defaultForm byName N P D =
     (D = [] \<or>
      (byName \<and> (\<exists>m \<in> N. D = [(''default_runtime_name'', TString m)])) \<or>
      (\<not> byName \<and> (\<exists>ed q. q \<in> P \<and> binaryName (Some (TTree ed)) = Some q \<and>
                               D = [(''default_runtime'', TTree ed)])))"

subsection \<open>The documents of the tests\<close>

text \<open>
  The helpers at the end of the test file, and the options and the configuration that
  the tests build from a row of their table. The constant \<^verbatim>\<open>runtimeType\<close> of the test
  package is declared in another file; the expected documents of the tests show its
  value. Go maps have no order; the keys are listed here as the test file lists them.
\<close>

definition testRuntimeType :: string where
  "testRuntimeType = ''runtime_type''"

definition testOptions :: "bool \<Rightarrow> bool \<Rightarrow> string \<Rightarrow> options" where
  "testOptions legacy dflt class =
     \<lparr>useLegacyConfig = legacy, setAsDefault = dflt, runtimeClass = class,
      runtimeType = testRuntimeType, runtimeDir = ''/test/runtime/dir''\<rparr>"

text \<open>The options of \<^verbatim>\<open>TestRevertV1Config\<close>: only the runtime class is set.\<close>

definition revertOptions :: options where
  "revertOptions =
     \<lparr>useLegacyConfig = False, setAsDefault = False, runtimeClass = ''nvidia'',
      runtimeType = [], runtimeDir = []\<rparr>"

definition testConfigV1 :: "tree \<Rightarrow> bool \<Rightarrow> Config" where
  "testConfigV1 t legacy =
     \<lparr>Tree = t, RuntimeType = testRuntimeType, UseDefaultRuntimeName = (\<not> legacy)\<rparr>"

definition defaultRuntimeV1 :: "string \<Rightarrow> tree" where
  "defaultRuntimeV1 binary =
     [(''runtime_type'', TString testRuntimeType),
      (''runtime_root'', TString []),
      (''runtime_engine'', TString []),
      (''privileged_without_host_devices'', TBool False),
      (''options'', TTree [(''BinaryName'', TString binary), (''Runtime'', TString binary)])]"

definition runtimeMapV1 :: "string \<Rightarrow> tree" where
  "runtimeMapV1 binary =
     [(''runtime_type'', TString testRuntimeType),
      (''runtime_root'', TString []),
      (''runtime_engine'', TString []),
      (''privileged_without_host_devices'', TBool False),
      (''options'', TTree [(''BinaryName'', TString binary), (''Runtime'', TString binary)])]"

text \<open>
  The entry that \<^verbatim>\<open>TestUpdateV1Config\<close> expects for a runtime with the given binary.
\<close>

definition expectedRuntimeV1 :: "string \<Rightarrow> tree" where
  "expectedRuntimeV1 binary =
     [(''runtime_type'', TString testRuntimeType),
      (''runtime_root'', TString []),
      (''runtime_engine'', TString []),
      (''privileged_without_host_devices'', TBool False),
      (''container_annotations'', TList [TString ''cdi.k8s.io/*'']),
      (''options'', TTree [(''BinaryName'', TString binary), (''Runtime'', TString binary)])]"

definition runcEntryV1 :: "string \<Rightarrow> tree" where
  "runcEntryV1 binary =
     [(''runtime_type'', TString ''runc_runtime_type''),
      (''runtime_root'', TString ''runc_runtime_root''),
      (''runtime_engine'', TString ''runc_runtime_engine''),
      (''privileged_without_host_devices'', TBool True),
      (''options'', TTree [(''runc-option'', TString ''value''),
                           (''BinaryName'', TString binary)])]"

definition runcConfigMapV1 :: "string \<Rightarrow> tree" where
  "runcConfigMapV1 binary =
     [(''plugins'', TTree
        [(''cri'', TTree
           [(''containerd'', TTree
              [(''runtimes'', TTree
                 [(''runc'', TTree (runcEntryV1 binary))])])])])]"

section \<open>Properties of the CDI modifier\<close>

subsection \<open>The loop over the devices of the environment\<close>

text \<open>
  The map \<^verbatim>\<open>seen\<close> starts empty and the loop never writes to it, so no name is ever
  found in it: the loop appends every qualified name and logs nothing.
\<close>

lemma envLoop_unseen:
  "envLoop q kind names (\<lambda>_. False) devs lg = (devs @ map (qualify q kind) names, lg)"
  by (induction names arbitrary: devs) (simp_all add: Let_def)

lemma sampleSpec_devices:
  "DevicesFromEnvvars sampleCollaborators (ProcessEnv (sampleSpec anns ''0,0'' caps))
     visibleDevicesEnvvar = [''0'', ''0'']"
  "DevicesFromEnvvars sampleCollaborators (ProcessEnv (sampleSpec anns ''0,1'' caps))
     visibleDevicesEnvvar = [''0'', ''1'']"
  by (simp_all add: sampleCollaborators_def sampleSpec_def visibleDevicesEnvvar_def)

lemma sampleCollaborators_simps:
  "ParseAnnotations sampleCollaborators [] = Inr ([], [])"
  "NewCUDAImageFromSpec sampleCollaborators raw = Inr (ProcessEnv raw)"
  "IsPrivileged sampleCollaborators raw = (''CAP_SYS_ADMIN'' \<in> set (Capabilities raw))"
  "IsQualifiedName sampleCollaborators = isQualifiedForm"
  by (simp_all add: sampleCollaborators_def)

lemma sampleSpec_simps:
  "Annotations (sampleSpec anns visible caps) = anns"
  "Capabilities (sampleSpec anns visible caps) = caps"
  by (simp_all add: sampleSpec_def)

lemma qualify_sample:
  "qualify isQualifiedForm ''nvidia.com/gpu'' ''0'' = ''nvidia.com/gpu=0''"
  "qualify isQualifiedForm ''nvidia.com/gpu'' ''1'' = ''nvidia.com/gpu=1''"
  by (simp_all add: qualify_def isQualifiedForm_def)

text \<open>
  Claim C1. For a list of devices with duplicates the resolver is to return every
  qualified name once, in the order of first occurrence, and to log every duplicate it
  skips. The source does not do so: for a privileged container whose environment asks
  for the devices \<^verbatim>\<open>0,0\<close> the resolver returns \<^verbatim>\<open>nvidia.com/gpu=0\<close> twice and logs
  nothing.
\<close>

theorem getDevicesFromSpec_keeps_duplicates:
  "getDevicesFromSpec sampleCollaborators
     (Inr (sampleSpec [] ''0,0'' [''CAP_SYS_ADMIN''])) sampleConfig
   = (Inr [''nvidia.com/gpu=0'', ''nvidia.com/gpu=0''], [])"
  by (simp add: getDevicesFromSpec_def sampleCollaborators_simps sampleSpec_simps
      sampleSpec_devices envLoop_unseen qualify_sample sampleConfig_def)

text \<open>
  Claim C2. When the annotations of the specification parse to at least one device, the
  resolver returns exactly these devices and logs nothing; the result is the same
  whatever the image, the environment of the process, its capabilities, the predicate
  of qualified names and the configuration are, so the variable
  \<^verbatim>\<open>NVIDIA_VISIBLE_DEVICES\<close> has no part in it.
\<close>

theorem annotation_devices_exclusive:
  assumes "ParseAnnotations ext (Annotations raw) = Inr (unqualified, annotationDevices)"
    and "annotationDevices \<noteq> []"
  shows "getDevicesFromSpec ext (Inr raw) cfg = (Inr annotationDevices, []) \<and>
    (\<forall>ext' env caps cfg'.
       ParseAnnotations ext' = ParseAnnotations ext \<longrightarrow>
       getDevicesFromSpec ext' (Inr (raw\<lparr>ProcessEnv := env, Capabilities := caps\<rparr>)) cfg'
         = (Inr annotationDevices, []))"
  using assms by (simp add: getDevicesFromSpec_def)

theorem annotation_devices_exclusive_witness:
  "ParseAnnotations sampleCollaborators
     (Annotations (sampleSpec [(''cdi.k8s.io/gpu'', ''nvidia.com/gpu=1'')] ''0,0'' []))
     = Inr ([], [''nvidia.com/gpu=1'']) \<and>
   [''nvidia.com/gpu=1''] \<noteq> [] \<and>
   getDevicesFromSpec sampleCollaborators
     (Inr (sampleSpec [(''cdi.k8s.io/gpu'', ''nvidia.com/gpu=1'')] ''0,0'' [])) sampleConfig
     = (Inr [''nvidia.com/gpu=1''], [])"
proof -
  let ?raw = "sampleSpec [(''cdi.k8s.io/gpu'', ''nvidia.com/gpu=1'')] ''0,0'' []"
  have h: "ParseAnnotations sampleCollaborators (Annotations ?raw)
             = Inr ([], [''nvidia.com/gpu=1''])"
    by (simp add: sampleCollaborators_def sampleSpec_def isQualifiedForm_def)
  from annotation_devices_exclusive [OF h, of sampleConfig] h show ?thesis by blast
qed



text \<open>
  Claim C4. When the resolver returns the empty list and no error,
  \<^verbatim>\<open>NewCDIModifier\<close> returns a nil modifier and a nil error, after the debug message
  that no device is requested.
\<close>

theorem NewCDIModifier_no_devices:
  assumes "getDevicesFromSpec ext ociSpec cfg = (Inr [], lg)"
  shows "NewCDIModifier ext DefaultSpecDirs cfg ociSpec
           = (Inr None, lg @ [Debug_NoDevicesRequested])"
  using assms by (simp add: NewCDIModifier_def)

theorem NewCDIModifier_no_devices_witness:
  "getDevicesFromSpec sampleCollaborators (Inr (sampleSpec [] [] [])) sampleConfig = (Inr [], []) \<and>
   NewCDIModifier sampleCollaborators [''/etc/cdi'', ''/var/run/cdi''] sampleConfig
     (Inr (sampleSpec [] [] [])) = (Inr None, [Debug_NoDevicesRequested])"
proof -
  have h: "getDevicesFromSpec sampleCollaborators (Inr (sampleSpec [] [] [])) sampleConfig
             = (Inr [], [])"
    by (simp add: getDevicesFromSpec_def sampleCollaborators_def sampleSpec_def
        visibleDevicesEnvvar_def)
  from NewCDIModifier_no_devices [OF h, of "[''/etc/cdi'', ''/var/run/cdi'']"] h
  show ?thesis by simp
qed

text \<open>
  Claim C5. \<^verbatim>\<open>Modify\<close> returns an error exactly when \<^verbatim>\<open>InjectDevices\<close>, called on
  the refreshed registry with the devices of the modifier, reports one, and the error is
  the one of \<^verbatim>\<open>InjectDevices\<close> wrapped with the text of the injection. An error of
  \<^verbatim>\<open>Refresh\<close> is logged, the injection goes on, and \<^verbatim>\<open>Modify\<close> returns nil when the
  injection succeeds.
\<close>

theorem Modify_error_iff_inject_error:
  assumes "Refresh cdi (GetRegistry cdi (specDirs m) False) = (refreshError, reg)"
    and "InjectDevices cdi reg spec (devices m) = (injected, spec')"
  shows "(fst (Modify cdi m spec) \<noteq> None) = isl injected \<and>
    (\<forall>e. injected = Inl e \<longrightarrow>
         fst (Modify cdi m spec) = Some (Errorf ''failed to inject CDI devices'' (Collab e))) \<and>
    (\<forall>e unresolved. refreshError = Some e \<and> injected = Inr unresolved \<longrightarrow>
         Modify cdi m spec
           = (None, spec', [Debug_RefreshError (Collab e), Debug_Injecting (devices m)]))"
  using assms by (auto simp: Modify_def Let_def split: sum.splits)

theorem Modify_error_iff_inject_error_witness:
  "Modify \<lparr>GetRegistry = (\<lambda>dirs auto. dirs),
           Refresh = (\<lambda>reg. (Some ''cannot read /etc/cdi'', reg)),
           InjectDevices = (\<lambda>reg spec devs. (Inr [], spec @ devs))\<rparr>
     \<lparr>specDirs = [''/etc/cdi''], devices = [''nvidia.com/gpu=0'']\<rparr> [''rootfs'']
   = (None, [''rootfs'', ''nvidia.com/gpu=0''],
      [Debug_RefreshError (Collab ''cannot read /etc/cdi''),
       Debug_Injecting [''nvidia.com/gpu=0'']])"
  using Modify_error_iff_inject_error
    [of "\<lparr>GetRegistry = (\<lambda>dirs auto. dirs),
          Refresh = (\<lambda>reg. (Some ''cannot read /etc/cdi'', reg)),
          InjectDevices = (\<lambda>reg spec devs. (Inr [], spec @ devs))\<rparr>"
        "\<lparr>specDirs = [''/etc/cdi''], devices = [''nvidia.com/gpu=0'']\<rparr>"
        "Some ''cannot read /etc/cdi''" "[''/etc/cdi'']" "[''rootfs'']"
        "Inr []" "[''rootfs'', ''nvidia.com/gpu=0'']"]
  by simp

section \<open>Properties of loading the configuration\<close>

lemma Get_version: "Get t ''version'' = map_of t ''version''"
  by (simp add: Get_def)

text \<open>
  Claim C6. \<^verbatim>\<open>parseVersion\<close> returns 2, or 1 when \<^verbatim>\<open>useLegacyConfig\<close> is set, for a
  document with no top-level key; 1 for a document with top-level keys and no
  \<^verbatim>\<open>version\<close> among them; the integer itself when \<^verbatim>\<open>version\<close> holds an integer; and
  an error when \<^verbatim>\<open>version\<close> holds a value of any other type.
\<close>

theorem parseVersion_cases:
  "(Keys (Tree c) = [] \<longrightarrow>
      parseVersion c legacy = Inr (if legacy then 1 else 2)) \<and>
   (''version'' \<notin> set (Keys (Tree c)) \<and> Keys (Tree c) \<noteq> [] \<longrightarrow>
      parseVersion c legacy = Inr 1) \<and>
   (\<forall>v. map_of (Tree c) ''version'' = Some (TInt v) \<longrightarrow>
      parseVersion c legacy = Inr (sint v)) \<and>
   (\<forall>x. map_of (Tree c) ''version'' = Some x \<and> (\<forall>v. x \<noteq> TInt v) \<longrightarrow>
      parseVersion c legacy
        = Inl (ErrorfValue ''unsupported type for version field'' x))"
proof -
  have absent: "''version'' \<notin> set (Keys (Tree c)) \<Longrightarrow> map_of (Tree c) ''version'' = None"
    by (simp add: Keys_def map_of_eq_None_iff)
  show ?thesis
    by (auto simp: parseVersion_def Get_version absent split: nat.splits toml.splits)
qed

theorem parseVersion_cases_witness:
  "(parseVersion \<lparr>Tree = [], RuntimeType = [], UseDefaultRuntimeName = True\<rparr> False
      :: unit error + int) = Inr 2 \<and>
   (parseVersion \<lparr>Tree = [], RuntimeType = [], UseDefaultRuntimeName = False\<rparr> True
      :: unit error + int) = Inr 1 \<and>
   (parseVersion \<lparr>Tree = [(''root'', TString ''/var/lib/containerd'')], RuntimeType = [],
                   UseDefaultRuntimeName = True\<rparr> False :: unit error + int) = Inr 1 \<and>
   (parseVersion \<lparr>Tree = [(''version'', TInt 2)], RuntimeType = [],
                   UseDefaultRuntimeName = True\<rparr> True :: unit error + int) = Inr 2 \<and>
   (parseVersion \<lparr>Tree = [(''version'', TString ''2'')], RuntimeType = [],
                   UseDefaultRuntimeName = True\<rparr> False :: unit error + int)
      = Inl (ErrorfValue ''unsupported type for version field'' (TString ''2''))"
  using
    parseVersion_cases [of "\<lparr>Tree = [], RuntimeType = [], UseDefaultRuntimeName = True\<rparr>"
      False, where ?'a = unit]
    parseVersion_cases [of "\<lparr>Tree = [], RuntimeType = [], UseDefaultRuntimeName = False\<rparr>"
      True, where ?'a = unit]
    parseVersion_cases [of "\<lparr>Tree = [(''root'', TString ''/var/lib/containerd'')],
      RuntimeType = [], UseDefaultRuntimeName = True\<rparr>" False, where ?'a = unit]
    parseVersion_cases [of "\<lparr>Tree = [(''version'', TInt 2)], RuntimeType = [],
      UseDefaultRuntimeName = True\<rparr>" True, where ?'a = unit]
    parseVersion_cases [of "\<lparr>Tree = [(''version'', TString ''2'')], RuntimeType = [],
      UseDefaultRuntimeName = True\<rparr>" False, where ?'a = unit]
  by (simp add: Keys_def)

text \<open>
  Claim C10. \<^verbatim>\<open>loadConfig\<close> never returns the error that the configuration file is a
  directory: \<^verbatim>\<open>os.IsExist\<close> is false of the nil error that comes with the information of
  a file, and with an error there is no information to ask. For a path that names a
  directory the call goes on to the TOML loader with this path.
\<close>

theorem loadConfig_never_directory_error:
  "fst (loadConfig sys config) \<noteq> Returns (Inl (New ''config file is a directory'')) \<and>
   (\<forall>info. Stat sys config = StatInfo info \<and> IsDir info \<longrightarrow>
      loadConfig sys config =
        (case LoadFile sys config of
           Inl e \<Rightarrow> (Returns (Inl (Collab e)), [Info_LoadingConfig config])
         | Inr t \<Rightarrow>
             (Returns (Inr \<lparr>Tree = t, RuntimeType = [], UseDefaultRuntimeName = False\<rparr>),
              [Info_LoadingConfig config, Info_LoadedConfig])))"
  by (cases "Stat sys config")
     (auto simp: loadConfig_def loadTree_def Let_def split: sum.splits option.splits)

theorem loadConfig_never_directory_error_witness:
  "loadConfig \<lparr>Stat = (\<lambda>p. StatInfo \<lparr>IsDir = True\<rparr>), IsExist = (\<lambda>e. e = ''EEXIST''),
               IsNotExist = (\<lambda>e. e = ''ENOENT''),
               LoadFile = (\<lambda>p. Inl ''EISDIR'')\<rparr> ''/etc/containerd''
   = (Returns (Inl (Collab ''EISDIR'')), [Info_LoadingConfig ''/etc/containerd''])"
  using loadConfig_never_directory_error
    [of "\<lparr>Stat = (\<lambda>p. StatInfo \<lparr>IsDir = True\<rparr>), IsExist = (\<lambda>e. e = ''EEXIST''),
          IsNotExist = (\<lambda>e. e = ''ENOENT''), LoadFile = (\<lambda>p. Inl ''EISDIR'')\<rparr>"
        "''/etc/containerd''"]
  by simp

section \<open>Properties of update and revert\<close>

subsection \<open>Reading after writing\<close>

lemma map_of_setKey: "map_of (setKey k v t) k' = (if k' = k then Some v else map_of t k')"
  by (induction t) auto

lemma map_of_deleteKey: "map_of (deleteKey k t) k' = (if k' = k then None else map_of t k')"
  by (induction t) (auto simp: deleteKey_def)

lemma GetPath_Cons:
  "ks \<noteq> [] \<Longrightarrow>
   GetPath t (k # ks) = (case map_of t k of Some (TTree sub) \<Rightarrow> GetPath sub ks | _ \<Rightarrow> None)"
  by (cases ks) (auto split: option.splits toml.splits)

lemma GetPath_empty: "ks \<noteq> [] \<Longrightarrow> GetPath [] ks = None"
  by (cases ks; cases "tl ks") auto

lemma GetPath_subtree: "ks \<noteq> [] \<Longrightarrow> GetPath t (k # ks) = GetPath (subtree t k) ks"
  by (cases ks) (auto simp: subtree_def GetPath_empty split: option.splits toml.splits)

lemma SetPath_Cons:
  "ks \<noteq> [] \<Longrightarrow> SetPath t (k # ks) v = setKey k (TTree (SetPath (subtree t k) ks v)) t"
  by (cases ks) simp_all

lemma GetPath_SetPath_same: "p \<noteq> [] \<Longrightarrow> GetPath (SetPath t p v) p = Some v"
proof (induction p arbitrary: t)
  case Nil
  then show ?case by simp
next
  case (Cons k ks)
  show ?case
  proof (cases ks)
    case Nil
    then show ?thesis by (simp add: map_of_setKey)
  next
    case (Cons k' ks')
    then have "ks \<noteq> []" by simp
    then show ?thesis
      using Cons.IH [of "subtree t k"]
      by (simp add: SetPath_Cons GetPath_Cons map_of_setKey)
  qed
qed

lemma GetPath_SetPath_diverge: "diverge p q \<Longrightarrow> GetPath (SetPath t p v) q = GetPath t q"
proof (induction p q arbitrary: t rule: diverge.induct)
  case (1 a p b q)
  show ?case
  proof (cases "a = b")
    case False
    then show ?thesis
      by (cases p; cases q) (simp_all add: map_of_setKey neq_commute del: GetPath.simps(3) SetPath.simps(3) add: GetPath_Cons SetPath_Cons)
  next
    case True
    with 1 have d: "diverge p q" by simp
    then have pq: "p \<noteq> []" "q \<noteq> []" by (cases p; cases q; simp)+
    show ?thesis
      using 1(1) [OF d, of "subtree t a"] True pq
      by (simp add: SetPath_Cons GetPath_subtree [of q] map_of_setKey subtree_def)
  qed
qed simp_all

subsection \<open>One step of update\<close>

text \<open>
  What a call of \<^verbatim>\<open>AddRuntime\<close> leaves at the paths of the runtimes and of the default
  runtime.
\<close>

lemmas path_defs = runtimesPath_def containerdPath_def

lemma AddRuntime_fields [simp]:
  "RuntimeType (AddRuntime c n p d) = RuntimeType c"
  "UseDefaultRuntimeName (AddRuntime c n p d) = UseDefaultRuntimeName c"
  by (simp_all add: AddRuntime_def Let_def)

lemma inheritedEntry_version:
  "inheritedEntry (SetPath t [''version''] v) rtype = inheritedEntry t rtype"
  by (simp add: inheritedEntry_def path_defs GetPath_SetPath_diverge
      del: GetPath.simps SetPath.simps)

lemma AddRuntime_entry:
  "GetPath (Tree (AddRuntime c n p d)) (runtimesPath @ [n]) =
     Some (TTree (runtimeEntry (inheritedEntry (Tree c) (RuntimeType c)) p))"
  by (simp add: AddRuntime_def Let_def inheritedEntry_version path_defs
      GetPath_SetPath_diverge GetPath_SetPath_same del: GetPath.simps SetPath.simps)

lemma AddRuntime_other:
  "n' \<noteq> n \<Longrightarrow>
   GetPath (Tree (AddRuntime c n p d)) (runtimesPath @ [n']) = GetPath (Tree c) (runtimesPath @ [n'])"
  by (simp add: AddRuntime_def Let_def path_defs
      GetPath_SetPath_diverge GetPath_SetPath_same del: GetPath.simps SetPath.simps)

lemma AddRuntime_default_runtime_name:
  "GetPath (Tree (AddRuntime c n p d)) (containerdPath @ [''default_runtime_name'']) =
     (if d \<and> UseDefaultRuntimeName c then Some (TString n)
      else GetPath (Tree c) (containerdPath @ [''default_runtime_name'']))"
  by (simp add: AddRuntime_def Let_def path_defs
      GetPath_SetPath_diverge GetPath_SetPath_same del: GetPath.simps SetPath.simps)

lemma AddRuntime_default_runtime:
  "GetPath (Tree (AddRuntime c n p d)) (containerdPath @ [''default_runtime'']) =
     (if d \<and> \<not> UseDefaultRuntimeName c
      then Some (TTree (deleteKey ''container_annotations''
                          (runtimeEntry (inheritedEntry (Tree c) (RuntimeType c)) p)))
      else GetPath (Tree c) (containerdPath @ [''default_runtime'']))"
  by (simp add: AddRuntime_def Let_def inheritedEntry_version path_defs
      GetPath_SetPath_diverge GetPath_SetPath_same del: GetPath.simps SetPath.simps)

lemma runtimeEntry_field:
  "f \<noteq> ''container_annotations'' \<Longrightarrow> f \<noteq> ''options'' \<Longrightarrow>
   GetPath (runtimeEntry r p) [f] = GetPath r [f]"
  by (simp add: runtimeEntry_def GetPath_SetPath_diverge del: GetPath.simps SetPath.simps)

lemma runtimeEntry_option:
  "GetPath (runtimeEntry r p) [''options'', k] =
     (if k = ''BinaryName'' \<or> k = ''Runtime'' then Some (TString p)
      else GetPath r [''options'', k])"
  by (auto simp add: runtimeEntry_def GetPath_SetPath_diverge GetPath_SetPath_same
      simp del: GetPath.simps SetPath.simps)

lemma addRuntimes_snoc:
  "addRuntimes c (rs @ [r]) =
     AddRuntime (addRuntimes c rs) (runtimeName r) (runtimePath r) (runtimeDefault r)"
  by (simp add: addRuntimes_def)

lemma addRuntimes_Nil: "addRuntimes c [] = c"
  by (simp add: addRuntimes_def)

lemma addRuntimes_four:
  "addRuntimes c [r0, r1, r2, r3] =
     AddRuntime (AddRuntime (AddRuntime
       (AddRuntime c (runtimeName r0) (runtimePath r0) (runtimeDefault r0))
       (runtimeName r1) (runtimePath r1) (runtimeDefault r1))
       (runtimeName r2) (runtimePath r2) (runtimeDefault r2))
       (runtimeName r3) (runtimePath r3) (runtimeDefault r3)"
  by (simp add: addRuntimes_def)

lemma removeRuntimes_four:
  "removeRuntimes c [r0, r1, r2, r3] =
     RemoveRuntime (RemoveRuntime (RemoveRuntime (RemoveRuntime c (runtimeName r0))
       (runtimeName r1)) (runtimeName r2)) (runtimeName r3)"
  by (simp add: removeRuntimes_def)

lemma addRuntimes_fields [simp]:
  "RuntimeType (addRuntimes c rs) = RuntimeType c"
  "UseDefaultRuntimeName (addRuntimes c rs) = UseDefaultRuntimeName c"
  by (induction rs rule: rev_induct) (simp_all add: addRuntimes_snoc addRuntimes_Nil)

lemma addRuntimes_other:
  "n \<notin> set (map runtimeName rs) \<Longrightarrow>
   GetPath (Tree (addRuntimes c rs)) (runtimesPath @ [n]) = GetPath (Tree c) (runtimesPath @ [n])"
  by (induction rs rule: rev_induct)
     (simp_all add: AddRuntime_other addRuntimes_snoc addRuntimes_Nil)

lemma addRuntimes_entry:
  assumes "distinct (map runtimeName rs)" and "r \<in> set rs"
    and "''runc'' \<notin> set (map runtimeName rs)"
  shows "GetPath (Tree (addRuntimes c rs)) (runtimesPath @ [runtimeName r]) =
           Some (TTree (runtimeEntry (inheritedEntry (Tree c) (RuntimeType c)) (runtimePath r)))"
  using assms
proof (induction rs rule: rev_induct)
  case Nil
  then show ?case by simp
next
  case (snoc x xs)
  have inh: "inheritedEntry (Tree (addRuntimes c xs)) (RuntimeType c) =
             inheritedEntry (Tree c) (RuntimeType c)"
    using snoc.prems(3) by (simp add: inheritedEntry_def addRuntimes_other)
  show ?case
  proof (cases "r = x")
    case True
    then show ?thesis by (simp add: AddRuntime_entry inh addRuntimes_snoc)
  next
    case False
    with snoc.prems have rx: "r \<in> set xs" by simp
    with snoc.prems have "runtimeName r \<noteq> runtimeName x" by (auto simp: image_iff)
    note rx this
    with snoc show ?thesis by (simp add: AddRuntime_other addRuntimes_snoc)
  qed
qed

lemma GetRuntimes_distinct: "distinct (map runtimeName (GetRuntimes opts))"
  by (simp add: GetRuntimes_def newRuntime_def plainRuntimeName_def runtimeModes_def
      modeRuntimeName_def defaultRuntimeName_def)

subsection \<open>Update and revert on a document of known shape\<close>

text \<open>
  On the empty document and on a document that holds the version, the runtime entries
  and the keys next to them, a step of update and a step of revert give a document of
  this shape again.
\<close>

lemma AddRuntime_empty:
  assumes "Tree c = []"
  shows "Tree (AddRuntime c n p dflt) =
           configDocument [(n, TTree (runtimeEntry (defaultEntry (RuntimeType c)) p))]
             (defaultKeys c n (runtimeEntry (defaultEntry (RuntimeType c)) p) dflt [])"
  using assms
  by (simp add: AddRuntime_def Let_def configDocument_def defaultKeys_def inheritedEntry_def
      path_defs subtree_def)

lemma AddRuntime_document:
  assumes "Tree c = configDocument rs d"
  shows "Tree (AddRuntime c n p dflt) =
           configDocument
             (setKey n (TTree (runtimeEntry (inheritedEntry (Tree c) (RuntimeType c)) p)) rs)
             (defaultKeys c n (runtimeEntry (inheritedEntry (Tree c) (RuntimeType c)) p) dflt d)"
  using assms
  by (simp add: AddRuntime_def Let_def inheritedEntry_version)
     (simp add: configDocument_def defaultKeys_def path_defs subtree_def)

lemma GetPath_deleteKey:
  "k' \<noteq> k \<Longrightarrow> GetPath (deleteKey k t) (k' # ks) = GetPath t (k' # ks)"
  by (cases ks) (simp_all add: map_of_deleteKey)

lemma binaryName_runtimeEntry:
  "binaryName (Some (TTree (runtimeEntry inh p))) = Some p"
  "binaryName (Some (TTree (deleteKey ''container_annotations'' (runtimeEntry inh p)))) = Some p"
  by (simp_all add: binaryName_def runtimeEntry_option GetPath_deleteKey
      del: GetPath.simps)

lemma document_runtime:
  "GetPath (configDocument rs d) (runtimesPath @ [n]) = map_of rs n"
  by (simp add: configDocument_def path_defs)

lemma document_key:
  "k \<noteq> ''runtimes'' \<Longrightarrow> GetPath (configDocument rs d) (containerdPath @ [k]) = map_of d k"
  by (simp add: configDocument_def path_defs)

lemma document_delete_runtime:
  "DeletePath (configDocument rs d) (runtimesPath @ [n]) = configDocument (deleteKey n rs) d"
  by (simp add: configDocument_def path_defs)

lemma document_delete_key:
  "k \<noteq> ''runtimes'' \<Longrightarrow>
   DeletePath (configDocument rs d) (containerdPath @ [k]) = configDocument rs (deleteKey k d)"
  by (simp add: configDocument_def path_defs deleteKey_def)

lemma document_prune:
  "rs \<noteq> [] \<Longrightarrow>
   pruneEmpty (pruneEmpty (pruneEmpty (pruneEmpty (configDocument rs d) runtimesPath)
     containerdPath) [''plugins'', ''cri'']) [''plugins''] = configDocument rs d"
  by (simp add: configDocument_def path_defs pruneEmpty_def)

lemma document_prune_all:
  "pruneEmpty (pruneEmpty (pruneEmpty (pruneEmpty (configDocument [] []) runtimesPath)
     containerdPath) [''plugins'', ''cri'']) [''plugins''] = [(''version'', TInt 1)]"
  by (simp add: configDocument_def path_defs pruneEmpty_def deleteKey_def)

lemma document_Keys: "Keys (configDocument rs d) = [''version'', ''plugins'']"
  by (simp add: configDocument_def Keys_def)

lemma RemoveRuntime_steps:
  assumes "Tree c = configDocument rs d"
  shows "Tree (RemoveRuntime c n) =
     (let t4 = foldl pruneEmpty
                 (configDocument (deleteKey n rs) (dropDefaultName n (dropDefaultRuntime n rs d)))
                 [runtimesPath, containerdPath, [''plugins'', ''cri''], [''plugins'']]
      in if Keys t4 = [''version''] then deleteKey ''version'' t4 else t4)"
proof -
  let ?t = "configDocument rs d"
  have t1: "(case (binaryName (GetPath ?t (runtimesPath @ [n])),
                   binaryName (GetPath ?t (containerdPath @ [''default_runtime'']))) of
               (Some a, Some b) \<Rightarrow>
                 if a = b then DeletePath ?t (containerdPath @ [''default_runtime'']) else ?t
             | _ \<Rightarrow> ?t) = configDocument rs (dropDefaultRuntime n rs d)"
    by (simp add: document_runtime document_key document_delete_key dropDefaultRuntime_def
        split: option.splits)
  show ?thesis
    unfolding RemoveRuntime_def Let_def assms t1
    by (simp add: document_delete_runtime document_key document_delete_key dropDefaultName_def)
qed

lemma RemoveRuntime_document:
  assumes "Tree c = configDocument rs d" and "deleteKey n rs \<noteq> []"
  shows "Tree (RemoveRuntime c n) =
           configDocument (deleteKey n rs) (dropDefaultName n (dropDefaultRuntime n rs d))"
  using assms(2)
  by (simp add: RemoveRuntime_steps [OF assms(1)] document_prune document_Keys)

lemma RemoveRuntime_document_last:
  assumes "Tree c = configDocument rs d" and "deleteKey n rs = []"
    and "dropDefaultName n (dropDefaultRuntime n rs d) = []"
  shows "Tree (RemoveRuntime c n) = []"
  using assms(2,3)
  by (simp add: RemoveRuntime_steps [OF assms(1)] document_prune_all Keys_def deleteKey_def)

lemma defaultKeys_form:
  assumes "defaultForm (UseDefaultRuntimeName c) N P D" and "n \<in> N" and "p \<in> P"
  shows "defaultForm (UseDefaultRuntimeName c) N P (defaultKeys c n (runtimeEntry inh p) dflt D)"
proof (cases "dflt")
  case False
  then show ?thesis using assms(1) by (simp add: defaultKeys_def)
next
  case True
  show ?thesis
  proof (cases "UseDefaultRuntimeName c")
    case U: True
    from assms(1) have "defaultKeys c n (runtimeEntry inh p) dflt D
                          = [(''default_runtime_name'', TString n)]"
      using True U by (auto simp: defaultKeys_def defaultForm_def)
    then show ?thesis using assms(2) U by (simp add: defaultForm_def)
  next
    case U: False
    from assms(1) have "defaultKeys c n (runtimeEntry inh p) dflt D
        = [(''default_runtime'', TTree (deleteKey ''container_annotations'' (runtimeEntry inh p)))]"
      using True U by (auto simp: defaultKeys_def defaultForm_def)
    then show ?thesis
      using assms(3) U binaryName_runtimeEntry(2) [of inh p] by (simp add: defaultForm_def)
  qed
qed

lemma update_four:
  assumes "Tree c = []" and dist: "distinct [n0, n1, n2, n3]"
  shows "\<exists>e0 e1 e2 e3 D.
     Tree (AddRuntime (AddRuntime (AddRuntime (AddRuntime c n0 p0 d0) n1 p1 d1) n2 p2 d2) n3 p3 d3)
       = configDocument [(n0, TTree e0), (n1, TTree e1), (n2, TTree e2), (n3, TTree e3)] D \<and>
     binaryName (Some (TTree e0)) = Some p0 \<and> binaryName (Some (TTree e1)) = Some p1 \<and>
     binaryName (Some (TTree e2)) = Some p2 \<and> binaryName (Some (TTree e3)) = Some p3 \<and>
     defaultForm (UseDefaultRuntimeName c) {n0, n1, n2, n3} {p0, p1, p2, p3} D"
proof -
  let ?N = "{n0, n1, n2, n3}" and ?P = "{p0, p1, p2, p3}"
  let ?U = "UseDefaultRuntimeName c"
  define c1 where "c1 = AddRuntime c n0 p0 d0"
  define c2 where "c2 = AddRuntime c1 n1 p1 d1"
  define c3 where "c3 = AddRuntime c2 n2 p2 d2"
  define e0 where "e0 = runtimeEntry (defaultEntry (RuntimeType c)) p0"
  define e1 where "e1 = runtimeEntry (inheritedEntry (Tree c1) (RuntimeType c1)) p1"
  define e2 where "e2 = runtimeEntry (inheritedEntry (Tree c2) (RuntimeType c2)) p2"
  define e3 where "e3 = runtimeEntry (inheritedEntry (Tree c3) (RuntimeType c3)) p3"
  define D1 where "D1 = defaultKeys c n0 e0 d0 []"
  define D2 where "D2 = defaultKeys c1 n1 e1 d1 D1"
  define D3 where "D3 = defaultKeys c2 n2 e2 d2 D2"
  define D4 where "D4 = defaultKeys c3 n3 e3 d3 D3"
  have U: "UseDefaultRuntimeName c1 = ?U" "UseDefaultRuntimeName c2 = ?U"
    "UseDefaultRuntimeName c3 = ?U"
    by (simp_all add: c1_def c2_def c3_def)
  have T1: "Tree c1 = configDocument [(n0, TTree e0)] D1"
    unfolding c1_def e0_def D1_def by (rule AddRuntime_empty [OF assms(1)])
  have T2: "Tree c2 = configDocument [(n0, TTree e0), (n1, TTree e1)] D2"
    unfolding c2_def using AddRuntime_document [OF T1, of n1 p1 d1] dist
    by (simp add: e1_def D2_def)
  have T3: "Tree c3 = configDocument [(n0, TTree e0), (n1, TTree e1), (n2, TTree e2)] D3"
    unfolding c3_def using AddRuntime_document [OF T2, of n2 p2 d2] dist
    by (simp add: e2_def D3_def)
  have T4: "Tree (AddRuntime c3 n3 p3 d3)
              = configDocument [(n0, TTree e0), (n1, TTree e1), (n2, TTree e2), (n3, TTree e3)] D4"
    using AddRuntime_document [OF T3, of n3 p3 d3] dist
    by (simp add: e3_def D4_def)
  have F0: "defaultForm ?U ?N ?P []" by (simp add: defaultForm_def)
  have F1: "defaultForm ?U ?N ?P D1"
    unfolding D1_def e0_def using defaultKeys_form [OF F0, of n0 p0] by simp
  have F2: "defaultForm ?U ?N ?P D2"
    unfolding D2_def e1_def using defaultKeys_form [of c1 ?N ?P D1 n1 p1] F1 U by simp
  have F3: "defaultForm ?U ?N ?P D3"
    unfolding D3_def e2_def using defaultKeys_form [of c2 ?N ?P D2 n2 p2] F2 U by simp
  have F4: "defaultForm ?U ?N ?P D4"
    unfolding D4_def e3_def using defaultKeys_form [of c3 ?N ?P D3 n3 p3] F3 U by simp
  have B: "binaryName (Some (TTree e0)) = Some p0" "binaryName (Some (TTree e1)) = Some p1"
    "binaryName (Some (TTree e2)) = Some p2" "binaryName (Some (TTree e3)) = Some p3"
    by (simp_all add: e0_def e1_def e2_def e3_def binaryName_runtimeEntry)
  from T4 B F4 show ?thesis
    unfolding c1_def c2_def c3_def by blast
qed

lemma binaryName_None [simp]: "binaryName None = None"
  by (simp add: binaryName_def)

lemma dropDefault_empty: "dropDefaultName n (dropDefaultRuntime n rs []) = []"
  by (simp add: dropDefaultName_def dropDefaultRuntime_def split: option.splits)

lemma dropDefault_name:
  "dropDefaultName n (dropDefaultRuntime n rs [(''default_runtime_name'', TString m)]) =
     (if m = n then [] else [(''default_runtime_name'', TString m)])"
  by (simp add: dropDefaultName_def dropDefaultRuntime_def deleteKey_def split: option.splits)

lemma dropDefault_runtime:
  assumes "binaryName (map_of rs n) = Some p" and "binaryName (Some (TTree ed)) = Some q"
  shows "dropDefaultName n (dropDefaultRuntime n rs [(''default_runtime'', TTree ed)]) =
           (if p = q then [] else [(''default_runtime'', TTree ed)])"
  using assms by (simp add: dropDefaultName_def dropDefaultRuntime_def deleteKey_def)

text \<open>
  Removing four runtimes from the document that holds exactly their entries, and next
  to them at most a default that points at one of them, leaves the empty document.
\<close>

lemma revert_four:
  assumes dist: "distinct [n0, n1, n2, n3]"
    and B: "binaryName (Some (TTree e0)) = Some p0" "binaryName (Some (TTree e1)) = Some p1"
           "binaryName (Some (TTree e2)) = Some p2" "binaryName (Some (TTree e3)) = Some p3"
    and T: "Tree c = configDocument [(n0, TTree e0), (n1, TTree e1), (n2, TTree e2), (n3, TTree e3)] D"
    and F: "defaultForm byName {n0, n1, n2, n3} {p0, p1, p2, p3} D"
  shows "Tree (RemoveRuntime (RemoveRuntime (RemoveRuntime (RemoveRuntime c n0) n1) n2) n3) = []"
proof -
  let ?rs0 = "[(n0, TTree e0), (n1, TTree e1), (n2, TTree e2), (n3, TTree e3)]"
  let ?rs1 = "[(n1, TTree e1), (n2, TTree e2), (n3, TTree e3)]"
  let ?rs2 = "[(n2, TTree e2), (n3, TTree e3)]"
  let ?rs3 = "[(n3, TTree e3)]"
  have ne: "n0 \<noteq> n1" "n0 \<noteq> n2" "n0 \<noteq> n3" "n1 \<noteq> n2" "n1 \<noteq> n3" "n2 \<noteq> n3"
    "n1 \<noteq> n0" "n2 \<noteq> n0" "n3 \<noteq> n0" "n2 \<noteq> n1" "n3 \<noteq> n1" "n3 \<noteq> n2"
    using dist by auto
  define D1 where "D1 = dropDefaultName n0 (dropDefaultRuntime n0 ?rs0 D)"
  define D2 where "D2 = dropDefaultName n1 (dropDefaultRuntime n1 ?rs1 D1)"
  define D3 where "D3 = dropDefaultName n2 (dropDefaultRuntime n2 ?rs2 D2)"
  define D4 where "D4 = dropDefaultName n3 (dropDefaultRuntime n3 ?rs3 D3)"
  have del: "deleteKey n0 ?rs0 = ?rs1" "deleteKey n1 ?rs1 = ?rs2" "deleteKey n2 ?rs2 = ?rs3"
    "deleteKey n3 ?rs3 = []"
    by (simp_all add: deleteKey_def ne)
  have T1: "Tree (RemoveRuntime c n0) = configDocument ?rs1 D1"
    using RemoveRuntime_document [OF T, of n0] unfolding del D1_def by simp
  have T2: "Tree (RemoveRuntime (RemoveRuntime c n0) n1) = configDocument ?rs2 D2"
    using RemoveRuntime_document [OF T1, of n1] unfolding del D2_def by simp
  have T3: "Tree (RemoveRuntime (RemoveRuntime (RemoveRuntime c n0) n1) n2)
              = configDocument ?rs3 D3"
    using RemoveRuntime_document [OF T2, of n2] unfolding del D3_def by simp
  have M: "binaryName (map_of ?rs0 n0) = Some p0" "binaryName (map_of ?rs1 n1) = Some p1"
    "binaryName (map_of ?rs2 n2) = Some p2" "binaryName (map_of ?rs3 n3) = Some p3"
    using B by simp_all
  have "D4 = []"
  proof -
    consider (none) "D = []"
      | (name) m where "m \<in> {n0, n1, n2, n3}" "D = [(''default_runtime_name'', TString m)]"
      | (entry) ed q where "q \<in> {p0, p1, p2, p3}" "binaryName (Some (TTree ed)) = Some q"
          "D = [(''default_runtime'', TTree ed)]"
      using F unfolding defaultForm_def by blast
    then show ?thesis
    proof cases
      case none
      then show ?thesis
        unfolding D4_def D3_def D2_def D1_def by (simp add: dropDefault_empty)
    next
      case name
      then show ?thesis
        unfolding D4_def D3_def D2_def D1_def
        by (auto simp add: dropDefault_name dropDefault_empty)
    next
      case entry
      note R = dropDefault_runtime [OF M(1) entry(2)] dropDefault_runtime [OF M(2) entry(2)]
        dropDefault_runtime [OF M(3) entry(2)] dropDefault_runtime [OF M(4) entry(2)]
      from entry(1,3) show ?thesis
        unfolding D4_def D3_def D2_def D1_def
        by (auto simp add: R dropDefault_empty)
    qed
  qed
  then show ?thesis
    using RemoveRuntime_document_last [OF T3 del(4)] unfolding D4_def by simp
qed

lemma GetRuntimes_four:
  "GetRuntimes opts =
     [newRuntime opts (plainRuntimeName opts) ''nvidia-container-runtime'',
      newRuntime opts ''nvidia-experimental'' ''nvidia-container-runtime.experimental'',
      newRuntime opts ''nvidia-cdi'' ''nvidia-container-runtime.cdi'',
      newRuntime opts ''nvidia-legacy'' ''nvidia-container-runtime.legacy'']"
  by (simp add: GetRuntimes_def runtimeModes_def modeRuntimeName_def)

lemma plainRuntimeName_not_mode:
  "distinct [plainRuntimeName opts, ''nvidia-experimental'', ''nvidia-cdi'', ''nvidia-legacy'']"
  by (simp add: plainRuntimeName_def runtimeModes_def modeRuntimeName_def defaultRuntimeName_def)

lemma inheritedEntry_AddRuntime:
  "n \<noteq> ''runc'' \<Longrightarrow>
   inheritedEntry (Tree (AddRuntime c n p d)) rtype = inheritedEntry (Tree c) rtype"
  by (simp add: inheritedEntry_def AddRuntime_other)

lemma inlined_entry:
  "deleteKey ''container_annotations'' (runtimeEntry (defaultEntry rtype) p) =
     defaultEntry rtype @
       [(''options'', TTree [(''BinaryName'', TString p), (''Runtime'', TString p)])]"
  by (simp add: runtimeEntry_def defaultEntry_def deleteKey_def subtree_def)

lemma inlined_entry_option:
  "GetPath (deleteKey ''container_annotations'' (runtimeEntry inh p)) [''options'', k] =
     (if k = ''BinaryName'' \<or> k = ''Runtime'' then Some (TString p)
      else GetPath inh [''options'', k])"
  by (simp add: GetPath_deleteKey runtimeEntry_option del: GetPath.simps)

lemma testOptions_simps:
  "nvidiaRuntimeName (testOptions legacy dflt []) = ''nvidia''"
  "class \<noteq> [] \<Longrightarrow> nvidiaRuntimeName (testOptions legacy dflt class) = class"
  "setAsDefault (testOptions legacy dflt class) = dflt"
  "runtimeDir (testOptions legacy dflt class) = ''/test/runtime/dir''"
  by (simp_all add: testOptions_def nvidiaRuntimeName_def defaultRuntimeName_def)

lemma testConfigV1_simps:
  "Tree (testConfigV1 t legacy) = t"
  "RuntimeType (testConfigV1 t legacy) = testRuntimeType"
  "UseDefaultRuntimeName (testConfigV1 t legacy) = (\<not> legacy)"
  by (simp_all add: testConfigV1_def)

subsection \<open>Update followed by revert\<close>

text \<open>
  Claim C7. On the empty document, \<^verbatim>\<open>UpdateConfig\<close> followed by \<^verbatim>\<open>RevertConfig\<close>
  with the same options gives the empty document again, for every choice of the options
  and of the configuration: no runtime entry, no default runtime, no table and no
  version stay behind.
\<close>

theorem Update_then_Revert_empty:
  assumes "Tree c = []"
  shows "Tree (RevertConfig (UpdateConfig c opts) opts) = []"
proof -
  let ?r0 = "newRuntime opts (plainRuntimeName opts) ''nvidia-container-runtime''"
  let ?r1 = "newRuntime opts ''nvidia-experimental'' ''nvidia-container-runtime.experimental''"
  let ?r2 = "newRuntime opts ''nvidia-cdi'' ''nvidia-container-runtime.cdi''"
  let ?r3 = "newRuntime opts ''nvidia-legacy'' ''nvidia-container-runtime.legacy''"
  have names: "runtimeName ?r0 = plainRuntimeName opts" "runtimeName ?r1 = ''nvidia-experimental''"
    "runtimeName ?r2 = ''nvidia-cdi''" "runtimeName ?r3 = ''nvidia-legacy''"
    by (simp_all add: newRuntime_def)
  have dist: "distinct [runtimeName ?r0, runtimeName ?r1, runtimeName ?r2, runtimeName ?r3]"
    unfolding names by (rule plainRuntimeName_not_mode)
  obtain e0 e1 e2 e3 D where
    T: "Tree (UpdateConfig c opts) =
          configDocument [(runtimeName ?r0, TTree e0), (runtimeName ?r1, TTree e1),
                          (runtimeName ?r2, TTree e2), (runtimeName ?r3, TTree e3)] D"
    and B: "binaryName (Some (TTree e0)) = Some (runtimePath ?r0)"
           "binaryName (Some (TTree e1)) = Some (runtimePath ?r1)"
           "binaryName (Some (TTree e2)) = Some (runtimePath ?r2)"
           "binaryName (Some (TTree e3)) = Some (runtimePath ?r3)"
    and F: "defaultForm (UseDefaultRuntimeName c)
              {runtimeName ?r0, runtimeName ?r1, runtimeName ?r2, runtimeName ?r3}
              {runtimePath ?r0, runtimePath ?r1, runtimePath ?r2, runtimePath ?r3} D"
    using update_four [OF assms dist,
        of "runtimePath ?r0" "runtimeDefault ?r0" "runtimePath ?r1" "runtimeDefault ?r1"
           "runtimePath ?r2" "runtimeDefault ?r2" "runtimePath ?r3" "runtimeDefault ?r3"]
    unfolding UpdateConfig_def GetRuntimes_four addRuntimes_four by auto
  show ?thesis
    using revert_four [OF dist B T F]
    unfolding RevertConfig_def GetRuntimes_four removeRuntimes_four by simp
qed

theorem Update_then_Revert_empty_witness:
  "Tree (testConfigV1 [] True) = [] \<and>
   Tree (RevertConfig (UpdateConfig (testConfigV1 [] True) (testOptions True True ''NAME''))
           (testOptions True True ''NAME'')) = []"
  using Update_then_Revert_empty [of "testConfigV1 [] True" "testOptions True True ''NAME''"]
  by (simp add: testConfigV1_simps)

subsection \<open>Update with a runc entry\<close>

text \<open>
  Claim C8. When the document has an entry for \<^verbatim>\<open>runc\<close>, and \<^verbatim>\<open>runc\<close> is not itself
  one of the runtimes to configure, \<^verbatim>\<open>UpdateConfig\<close> leaves this entry as it is, and
  every runtime it configures gets an entry with the \<^verbatim>\<open>runtime_root\<close>,
  \<^verbatim>\<open>runtime_engine\<close>, \<^verbatim>\<open>privileged_without_host_devices\<close> and the further options of
  \<^verbatim>\<open>runc\<close>, and with \<^verbatim>\<open>BinaryName\<close> and \<^verbatim>\<open>Runtime\<close> set to the binary of the runtime.
\<close>

theorem UpdateConfig_runc_kept_and_inherited:
  assumes "GetPath (Tree c) (runtimesPath @ [''runc'']) = Some (TTree runc)"
    and "''runc'' \<notin> set (map runtimeName (GetRuntimes opts))"
  shows "GetPath (Tree (UpdateConfig c opts)) (runtimesPath @ [''runc'']) = Some (TTree runc) \<and>
    (\<forall>r \<in> set (GetRuntimes opts). \<exists>e.
       GetPath (Tree (UpdateConfig c opts)) (runtimesPath @ [runtimeName r]) = Some (TTree e) \<and>
       GetPath e [''runtime_root''] = GetPath runc [''runtime_root''] \<and>
       GetPath e [''runtime_engine''] = GetPath runc [''runtime_engine''] \<and>
       GetPath e [''privileged_without_host_devices'']
         = GetPath runc [''privileged_without_host_devices''] \<and>
       (\<forall>k. k \<noteq> ''BinaryName'' \<and> k \<noteq> ''Runtime'' \<longrightarrow>
            GetPath e [''options'', k] = GetPath runc [''options'', k]) \<and>
       GetPath e [''options'', ''BinaryName''] = Some (TString (runtimePath r)) \<and>
       GetPath e [''options'', ''Runtime''] = Some (TString (runtimePath r)))"
proof (intro conjI ballI)
  show "GetPath (Tree (UpdateConfig c opts)) (runtimesPath @ [''runc'']) = Some (TTree runc)"
    using assms by (simp add: UpdateConfig_def addRuntimes_other)
next
  fix r assume r: "r \<in> set (GetRuntimes opts)"
  let ?e = "runtimeEntry runc (runtimePath r)"
  have "inheritedEntry (Tree c) (RuntimeType c) = runc"
    using assms(1) by (simp add: inheritedEntry_def)
  then have "GetPath (Tree (UpdateConfig c opts)) (runtimesPath @ [runtimeName r]) = Some (TTree ?e)"
    using addRuntimes_entry [OF GetRuntimes_distinct r assms(2), of c]
    by (simp add: UpdateConfig_def)
  then show "\<exists>e.
       GetPath (Tree (UpdateConfig c opts)) (runtimesPath @ [runtimeName r]) = Some (TTree e) \<and>
       GetPath e [''runtime_root''] = GetPath runc [''runtime_root''] \<and>
       GetPath e [''runtime_engine''] = GetPath runc [''runtime_engine''] \<and>
       GetPath e [''privileged_without_host_devices'']
         = GetPath runc [''privileged_without_host_devices''] \<and>
       (\<forall>k. k \<noteq> ''BinaryName'' \<and> k \<noteq> ''Runtime'' \<longrightarrow>
            GetPath e [''options'', k] = GetPath runc [''options'', k]) \<and>
       GetPath e [''options'', ''BinaryName''] = Some (TString (runtimePath r)) \<and>
       GetPath e [''options'', ''Runtime''] = Some (TString (runtimePath r))"
    by (intro exI [of _ ?e])
       (simp add: runtimeEntry_field runtimeEntry_option del: GetPath.simps)
qed

theorem UpdateConfig_runc_kept_and_inherited_witness:
  "GetPath (Tree (testConfigV1 (runcConfigMapV1 ''/runc-binary'') False))
     (runtimesPath @ [''runc'']) = Some (TTree (runcEntryV1 ''/runc-binary'')) \<and>
   ''runc'' \<notin> set (map runtimeName (GetRuntimes (testOptions False False ''nvidia''))) \<and>
   GetPath (Tree (UpdateConfig (testConfigV1 (runcConfigMapV1 ''/runc-binary'') False)
                    (testOptions False False ''nvidia'')))
     (runtimesPath @ [''runc'']) = Some (TTree (runcEntryV1 ''/runc-binary'')) \<and>
   (\<exists>e. GetPath (Tree (UpdateConfig (testConfigV1 (runcConfigMapV1 ''/runc-binary'') False)
                         (testOptions False False ''nvidia'')))
           (runtimesPath @ [''nvidia-cdi'']) = Some (TTree e) \<and>
        GetPath e [''runtime_root''] = Some (TString ''runc_runtime_root'') \<and>
        GetPath e [''options'', ''runc-option''] = Some (TString ''value'') \<and>
        GetPath e [''options'', ''BinaryName'']
          = Some (TString ''/test/runtime/dir/nvidia-container-runtime.cdi''))"
proof -
  let ?c = "testConfigV1 (runcConfigMapV1 ''/runc-binary'') False"
  let ?o = "testOptions False False ''nvidia''"
  let ?r = "newRuntime ?o ''nvidia-cdi'' ''nvidia-container-runtime.cdi''"
  have h1: "GetPath (Tree ?c) (runtimesPath @ [''runc'']) = Some (TTree (runcEntryV1 ''/runc-binary''))"
    by (simp add: testConfigV1_simps runcConfigMapV1_def path_defs)
  have h2: "''runc'' \<notin> set (map runtimeName (GetRuntimes ?o))"
    by (simp add: GetRuntimes_four newRuntime_def plainRuntimeName_def testOptions_simps
        runtimeModes_def modeRuntimeName_def)
  have r: "?r \<in> set (GetRuntimes ?o)" by (simp add: GetRuntimes_four)
  have rn: "runtimeName ?r = ''nvidia-cdi''"
    "runtimePath ?r = ''/test/runtime/dir/nvidia-container-runtime.cdi''"
    by (simp_all add: newRuntime_def binaryPath_def testOptions_simps)
  have f: "GetPath (runcEntryV1 ''/runc-binary'') [''runtime_root'']
             = Some (TString ''runc_runtime_root'')"
    "GetPath (runcEntryV1 ''/runc-binary'') [''options'', ''runc-option'']
             = Some (TString ''value'')"
    by (simp_all add: runcEntryV1_def)
  from UpdateConfig_runc_kept_and_inherited [OF h1 h2] r
  have A: "GetPath (Tree (UpdateConfig ?c ?o)) (runtimesPath @ [''runc''])
             = Some (TTree (runcEntryV1 ''/runc-binary''))"
    and "\<exists>e. GetPath (Tree (UpdateConfig ?c ?o)) (runtimesPath @ [runtimeName ?r]) = Some (TTree e) \<and>
       GetPath e [''runtime_root''] = GetPath (runcEntryV1 ''/runc-binary'') [''runtime_root''] \<and>
       GetPath e [''runtime_engine''] = GetPath (runcEntryV1 ''/runc-binary'') [''runtime_engine''] \<and>
       GetPath e [''privileged_without_host_devices'']
         = GetPath (runcEntryV1 ''/runc-binary'') [''privileged_without_host_devices''] \<and>
       (\<forall>k. k \<noteq> ''BinaryName'' \<and> k \<noteq> ''Runtime'' \<longrightarrow>
            GetPath e [''options'', k] = GetPath (runcEntryV1 ''/runc-binary'') [''options'', k]) \<and>
       GetPath e [''options'', ''BinaryName''] = Some (TString (runtimePath ?r)) \<and>
       GetPath e [''options'', ''Runtime''] = Some (TString (runtimePath ?r))"
    by blast+
  then obtain e where e:
    "GetPath (Tree (UpdateConfig ?c ?o)) (runtimesPath @ [''nvidia-cdi'']) = Some (TTree e)"
    "GetPath e [''runtime_root''] = GetPath (runcEntryV1 ''/runc-binary'') [''runtime_root'']"
    "\<forall>k. k \<noteq> ''BinaryName'' \<and> k \<noteq> ''Runtime'' \<longrightarrow>
            GetPath e [''options'', k] = GetPath (runcEntryV1 ''/runc-binary'') [''options'', k]"
    "GetPath e [''options'', ''BinaryName'']
       = Some (TString ''/test/runtime/dir/nvidia-container-runtime.cdi'')"
    unfolding rn by blast
  from e(3) have "GetPath e [''options'', ''runc-option'']
                    = GetPath (runcEntryV1 ''/runc-binary'') [''options'', ''runc-option'']"
    by simp
  with e f have "\<exists>e. GetPath (Tree (UpdateConfig ?c ?o)) (runtimesPath @ [''nvidia-cdi''])
                        = Some (TTree e) \<and>
        GetPath e [''runtime_root''] = Some (TString ''runc_runtime_root'') \<and>
        GetPath e [''options'', ''runc-option''] = Some (TString ''value'') \<and>
        GetPath e [''options'', ''BinaryName'']
          = Some (TString ''/test/runtime/dir/nvidia-container-runtime.cdi'')"
    by (intro exI [of _ e]) simp
  with h1 h2 A show ?thesis by blast
qed

subsection \<open>The default runtime of a version 1 configuration\<close>

lemma default_runtime_name_after_update:
  "GetPath (Tree (UpdateConfig c opts)) (containerdPath @ [''default_runtime_name'']) =
     (if setAsDefault opts \<and> UseDefaultRuntimeName c
      then Some (TString (nvidiaRuntimeName opts))
      else GetPath (Tree c) (containerdPath @ [''default_runtime_name'']))"
proof -
  have "plainRuntimeName opts = nvidiaRuntimeName opts \<or>
        nvidiaRuntimeName opts \<in> {''nvidia-experimental'', ''nvidia-cdi'', ''nvidia-legacy''}"
    by (simp add: plainRuntimeName_def runtimeModes_def modeRuntimeName_def)
  then show ?thesis
    by (auto simp add: UpdateConfig_def GetRuntimes_four addRuntimes_four newRuntime_def
        AddRuntime_default_runtime_name)
qed

text \<open>
  The entry that an update in the legacy form writes under \<^verbatim>\<open>default_runtime\<close> is the
  entry of the selected runtime without its \<^verbatim>\<open>container_annotations\<close>.
\<close>

lemma default_runtime_after_update:
  "GetPath (Tree (UpdateConfig c opts)) (containerdPath @ [''default_runtime'']) =
     (if setAsDefault opts \<and> \<not> UseDefaultRuntimeName c
      then Some (TTree (deleteKey ''container_annotations''
             (runtimeEntry (inheritedEntry (Tree c) (RuntimeType c))
                (binaryPath (runtimeDir opts)
                   (if nvidiaRuntimeName opts = ''nvidia-experimental''
                    then ''nvidia-container-runtime.experimental''
                    else if nvidiaRuntimeName opts = ''nvidia-cdi''
                    then ''nvidia-container-runtime.cdi''
                    else if nvidiaRuntimeName opts = ''nvidia-legacy''
                    then ''nvidia-container-runtime.legacy''
                    else ''nvidia-container-runtime'')))))
      else GetPath (Tree c) (containerdPath @ [''default_runtime'']))"
proof -
  have modes: "plainRuntimeName opts = ''nvidia''"
    if "nvidiaRuntimeName opts \<in> {''nvidia-experimental'', ''nvidia-cdi'', ''nvidia-legacy''}"
    using that
    by (simp add: plainRuntimeName_def runtimeModes_def modeRuntimeName_def
        defaultRuntimeName_def)
  consider (plain) "nvidiaRuntimeName opts \<noteq> ''nvidia-experimental''"
      "nvidiaRuntimeName opts \<noteq> ''nvidia-cdi''" "nvidiaRuntimeName opts \<noteq> ''nvidia-legacy''"
    | (experimental) "nvidiaRuntimeName opts = ''nvidia-experimental''"
    | (cdi) "nvidiaRuntimeName opts = ''nvidia-cdi''"
    | (legacy) "nvidiaRuntimeName opts = ''nvidia-legacy''"
    by blast
  then show ?thesis
  proof cases
    case plain
    then have p: "plainRuntimeName opts = nvidiaRuntimeName opts"
      by (simp add: plainRuntimeName_def runtimeModes_def modeRuntimeName_def)
    from plain have q: "''nvidia-experimental'' \<noteq> nvidiaRuntimeName opts"
      "''nvidia-cdi'' \<noteq> nvidiaRuntimeName opts" "''nvidia-legacy'' \<noteq> nvidiaRuntimeName opts"
      by simp_all
    show ?thesis
      using plain q
      by (simp add: UpdateConfig_def GetRuntimes_four addRuntimes_four newRuntime_def p
          AddRuntime_default_runtime)
  next
    case experimental
    then show ?thesis
      by (simp add: UpdateConfig_def GetRuntimes_four addRuntimes_four newRuntime_def modes
          AddRuntime_default_runtime inheritedEntry_AddRuntime)
  next
    case cdi
    then show ?thesis
      by (simp add: UpdateConfig_def GetRuntimes_four addRuntimes_four newRuntime_def modes
          AddRuntime_default_runtime inheritedEntry_AddRuntime)
  next
    case legacy
    then show ?thesis
      by (simp add: UpdateConfig_def GetRuntimes_four addRuntimes_four newRuntime_def modes
          AddRuntime_default_runtime inheritedEntry_AddRuntime)
  qed
qed

lemma selected_runtime:
  "newRuntime opts (nvidiaRuntimeName opts)
     (if nvidiaRuntimeName opts = ''nvidia-experimental''
      then ''nvidia-container-runtime.experimental''
      else if nvidiaRuntimeName opts = ''nvidia-cdi''
      then ''nvidia-container-runtime.cdi''
      else if nvidiaRuntimeName opts = ''nvidia-legacy''
      then ''nvidia-container-runtime.legacy''
      else ''nvidia-container-runtime'') \<in> set (GetRuntimes opts)"
  by (simp add: GetRuntimes_four plainRuntimeName_def runtimeModes_def modeRuntimeName_def)

text \<open>
  Claim C9, as amended. For a version 1 configuration and a request to set the default
  runtime, what \<^verbatim>\<open>UpdateConfig\<close> writes depends on \<^verbatim>\<open>UseDefaultRuntimeName\<close>. If it is
  set, the name of the selected runtime is written under \<^verbatim>\<open>default_runtime_name\<close> and
  \<^verbatim>\<open>default_runtime\<close> stays as it was. If it is not set (the legacy form),
  \<^verbatim>\<open>default_runtime_name\<close> stays as it was and \<^verbatim>\<open>default_runtime\<close> becomes an entry
  with \<^verbatim>\<open>BinaryName\<close> and \<^verbatim>\<open>Runtime\<close> set to the binary of the selected runtime; in
  a document with neither a \<^verbatim>\<open>runc\<close> entry nor a \<^verbatim>\<open>default_runtime\<close> it is the entry
  of the runtime without \<^verbatim>\<open>container_annotations\<close>: the runtime type, the two empty
  strings, \<^verbatim>\<open>false\<close> and the two options, and no name.
\<close>

theorem UpdateConfig_default_runtime_V1:
  assumes "setAsDefault opts"
  shows
   "(UseDefaultRuntimeName c \<longrightarrow>
       GetPath (Tree (UpdateConfig c opts)) (containerdPath @ [''default_runtime_name''])
         = Some (TString (nvidiaRuntimeName opts)) \<and>
       GetPath (Tree (UpdateConfig c opts)) (containerdPath @ [''default_runtime''])
         = GetPath (Tree c) (containerdPath @ [''default_runtime''])) \<and>
    (\<not> UseDefaultRuntimeName c \<longrightarrow>
       GetPath (Tree (UpdateConfig c opts)) (containerdPath @ [''default_runtime_name''])
         = GetPath (Tree c) (containerdPath @ [''default_runtime_name'']) \<and>
       (\<exists>r \<in> set (GetRuntimes opts). \<exists>e.
          runtimeName r = nvidiaRuntimeName opts \<and>
          GetPath (Tree (UpdateConfig c opts)) (containerdPath @ [''default_runtime''])
            = Some (TTree e) \<and>
          GetPath e [''options'', ''BinaryName''] = Some (TString (runtimePath r)) \<and>
          GetPath e [''options'', ''Runtime''] = Some (TString (runtimePath r)) \<and>
          (GetPath (Tree c) (runtimesPath @ [''runc'']) = None \<and>
           GetPath (Tree c) (containerdPath @ [''default_runtime'']) = None \<longrightarrow>
             e = defaultEntry (RuntimeType c) @
                   [(''options'', TTree [(''BinaryName'', TString (runtimePath r)),
                                        (''Runtime'', TString (runtimePath r))])])))"
proof (intro conjI impI)
  assume U: "UseDefaultRuntimeName c"
  show "GetPath (Tree (UpdateConfig c opts)) (containerdPath @ [''default_runtime_name''])
          = Some (TString (nvidiaRuntimeName opts))"
    using assms U by (simp add: default_runtime_name_after_update)
  show "GetPath (Tree (UpdateConfig c opts)) (containerdPath @ [''default_runtime''])
          = GetPath (Tree c) (containerdPath @ [''default_runtime''])"
    using U by (simp add: default_runtime_after_update)
next
  assume U: "\<not> UseDefaultRuntimeName c"
  show "GetPath (Tree (UpdateConfig c opts)) (containerdPath @ [''default_runtime_name''])
          = GetPath (Tree c) (containerdPath @ [''default_runtime_name''])"
    using U by (simp add: default_runtime_name_after_update)
  let ?b = "if nvidiaRuntimeName opts = ''nvidia-experimental''
      then ''nvidia-container-runtime.experimental''
      else if nvidiaRuntimeName opts = ''nvidia-cdi''
      then ''nvidia-container-runtime.cdi''
      else if nvidiaRuntimeName opts = ''nvidia-legacy''
      then ''nvidia-container-runtime.legacy''
      else ''nvidia-container-runtime''"
  let ?r = "newRuntime opts (nvidiaRuntimeName opts) ?b"
  let ?e = "deleteKey ''container_annotations''
              (runtimeEntry (inheritedEntry (Tree c) (RuntimeType c)) (runtimePath ?r))"
  have rp: "runtimePath ?r = binaryPath (runtimeDir opts) ?b" "runtimeName ?r = nvidiaRuntimeName opts"
    by (simp_all add: newRuntime_def)
  have G: "GetPath (Tree (UpdateConfig c opts)) (containerdPath @ [''default_runtime''])
             = Some (TTree ?e)"
    using assms U unfolding rp by (simp add: default_runtime_after_update)
  have O: "GetPath ?e [''options'', ''BinaryName''] = Some (TString (runtimePath ?r))"
    "GetPath ?e [''options'', ''Runtime''] = Some (TString (runtimePath ?r))"
    by (simp_all add: inlined_entry_option del: GetPath.simps)
  have X: "GetPath (Tree c) (runtimesPath @ [''runc'']) = None \<Longrightarrow>
           ?e = defaultEntry (RuntimeType c) @
                   [(''options'', TTree [(''BinaryName'', TString (runtimePath ?r)),
                                        (''Runtime'', TString (runtimePath ?r))])]"
    by (simp add: inheritedEntry_def inlined_entry)
  show "\<exists>r \<in> set (GetRuntimes opts). \<exists>e.
          runtimeName r = nvidiaRuntimeName opts \<and>
          GetPath (Tree (UpdateConfig c opts)) (containerdPath @ [''default_runtime''])
            = Some (TTree e) \<and>
          GetPath e [''options'', ''BinaryName''] = Some (TString (runtimePath r)) \<and>
          GetPath e [''options'', ''Runtime''] = Some (TString (runtimePath r)) \<and>
          (GetPath (Tree c) (runtimesPath @ [''runc'']) = None \<and>
           GetPath (Tree c) (containerdPath @ [''default_runtime'']) = None \<longrightarrow>
             e = defaultEntry (RuntimeType c) @
                   [(''options'', TTree [(''BinaryName'', TString (runtimePath r)),
                                        (''Runtime'', TString (runtimePath r))])])"
    using selected_runtime [of opts] rp(2) G O X
    by (intro bexI [of _ ?r] exI [of _ ?e]) blast+
qed

lemma testOptions_runtime:
  assumes "r \<in> set (GetRuntimes (testOptions legacy dflt class))"
    and "runtimeName r = ''nvidia-experimental''"
  shows "runtimePath r = ''/test/runtime/dir/nvidia-container-runtime.experimental''"
  using assms plainRuntimeName_not_mode [of "testOptions legacy dflt class"]
  by (auto simp add: GetRuntimes_four newRuntime_def binaryPath_def testOptions_simps)

theorem UpdateConfig_default_runtime_V1_witness:
  "setAsDefault (testOptions True True ''nvidia-experimental'') \<and>
   GetPath (Tree (UpdateConfig (testConfigV1 [] True)
                    (testOptions True True ''nvidia-experimental'')))
     (containerdPath @ [''default_runtime_name'']) = None \<and>
   GetPath (Tree (UpdateConfig (testConfigV1 [] True)
                    (testOptions True True ''nvidia-experimental'')))
     (containerdPath @ [''default_runtime''])
     = Some (TTree (defaultRuntimeV1 ''/test/runtime/dir/nvidia-container-runtime.experimental''))"
proof -
  let ?c = "testConfigV1 [] True"
  let ?o = "testOptions True True ''nvidia-experimental''"
  have h: "setAsDefault ?o" by (simp add: testOptions_simps)
  have U: "\<not> UseDefaultRuntimeName ?c" by (simp add: testConfigV1_simps)
  have E: "GetPath (Tree ?c) (runtimesPath @ [''runc'']) = None"
    "GetPath (Tree ?c) (containerdPath @ [''default_runtime'']) = None"
    "GetPath (Tree ?c) (containerdPath @ [''default_runtime_name'']) = None"
    by (simp_all add: testConfigV1_simps path_defs)
  from UpdateConfig_default_runtime_V1 [OF h, of ?c] U E
  obtain r e where N: "GetPath (Tree (UpdateConfig ?c ?o)) (containerdPath @ [''default_runtime_name''])
                         = None"
    and r: "r \<in> set (GetRuntimes ?o)" "runtimeName r = nvidiaRuntimeName ?o"
    and G: "GetPath (Tree (UpdateConfig ?c ?o)) (containerdPath @ [''default_runtime''])
              = Some (TTree e)"
    and X: "e = defaultEntry (RuntimeType ?c) @
                   [(''options'', TTree [(''BinaryName'', TString (runtimePath r)),
                                        (''Runtime'', TString (runtimePath r))])]"
    by auto
  from r have "runtimePath r = ''/test/runtime/dir/nvidia-container-runtime.experimental''"
    by (intro testOptions_runtime [of r True True "''nvidia-experimental''"])
       (simp_all add: testOptions_simps)
  with X have "e = defaultRuntimeV1 ''/test/runtime/dir/nvidia-container-runtime.experimental''"
    by (simp add: defaultRuntimeV1_def defaultEntry_def testConfigV1_simps)
  with h N G show ?thesis by simp
qed

text \<open>
  Claim C9 fails as it is stated. The seventh row of the table of
  \<^verbatim>\<open>TestUpdateV1ConfigDefaultRuntime\<close> is a version 1 configuration with
  \<^verbatim>\<open>UseDefaultRuntimeName\<close> set: the update writes the name \<^verbatim>\<open>nvidia\<close> under
  \<^verbatim>\<open>default_runtime_name\<close> and nothing under \<^verbatim>\<open>default_runtime\<close>. The third row is
  the legacy form: the entry under \<^verbatim>\<open>default_runtime\<close> is not the entry of the runtime,
  which carries \<^verbatim>\<open>container_annotations\<close>.
\<close>

theorem UpdateConfig_default_runtime_V1_counterexample:
  "GetPath (Tree (UpdateConfig (testConfigV1 [] False) (testOptions False True [])))
     (containerdPath @ [''default_runtime_name'']) = Some (TString ''nvidia'') \<and>
   GetPath (Tree (UpdateConfig (testConfigV1 [] False) (testOptions False True [])))
     (containerdPath @ [''default_runtime'']) = None \<and>
   GetPath (Tree (UpdateConfig (testConfigV1 [] True) (testOptions True True [])))
     (containerdPath @ [''default_runtime''])
     = Some (TTree (defaultRuntimeV1 ''/test/runtime/dir/nvidia-container-runtime'')) \<and>
   GetPath (Tree (UpdateConfig (testConfigV1 [] True) (testOptions True True [])))
     (runtimesPath @ [''nvidia''])
     = Some (TTree (expectedRuntimeV1 ''/test/runtime/dir/nvidia-container-runtime'')) \<and>
   defaultRuntimeV1 ''/test/runtime/dir/nvidia-container-runtime''
     \<noteq> expectedRuntimeV1 ''/test/runtime/dir/nvidia-container-runtime''"
proof -
  let ?o = "testOptions True True []"
  let ?r = "newRuntime ?o ''nvidia'' ''nvidia-container-runtime''"
  have inh: "inheritedEntry [] rtype = defaultEntry rtype" for rtype
    by (simp add: inheritedEntry_def path_defs)
  have r: "?r \<in> set (GetRuntimes ?o)"
    by (simp add: GetRuntimes_four plainRuntimeName_def testOptions_simps
        runtimeModes_def modeRuntimeName_def)
  have n: "''runc'' \<notin> set (map runtimeName (GetRuntimes ?o))"
    by (simp add: GetRuntimes_four newRuntime_def plainRuntimeName_def testOptions_simps
        runtimeModes_def modeRuntimeName_def)
  have rn: "runtimeName ?r = ''nvidia''"
    "runtimePath ?r = ''/test/runtime/dir/nvidia-container-runtime''"
    by (simp_all add: newRuntime_def binaryPath_def testOptions_simps)
  have entry: "runtimeEntry (defaultEntry testRuntimeType) p = expectedRuntimeV1 p" for p
    by (simp add: runtimeEntry_def defaultEntry_def expectedRuntimeV1_def subtree_def)
  have "GetPath (Tree (UpdateConfig (testConfigV1 [] True) ?o)) (runtimesPath @ [runtimeName ?r])
          = Some (TTree (expectedRuntimeV1 (runtimePath ?r)))"
    using addRuntimes_entry [OF GetRuntimes_distinct r n, of "testConfigV1 [] True"]
    by (simp add: UpdateConfig_def testConfigV1_simps inh entry del: GetPath.simps)
  then have D: "GetPath (Tree (UpdateConfig (testConfigV1 [] True) ?o)) (runtimesPath @ [''nvidia''])
          = Some (TTree (expectedRuntimeV1 ''/test/runtime/dir/nvidia-container-runtime''))"
    unfolding rn .
  have E: "GetPath [] (containerdPath @ [k]) = None" for k
    by (simp add: path_defs)
  have A: "GetPath (Tree (UpdateConfig (testConfigV1 [] False) (testOptions False True [])))
     (containerdPath @ [''default_runtime_name'']) = Some (TString ''nvidia'')"
    by (simp add: default_runtime_name_after_update testOptions_simps testConfigV1_simps
        del: GetPath.simps)
  have B: "GetPath (Tree (UpdateConfig (testConfigV1 [] False) (testOptions False True [])))
     (containerdPath @ [''default_runtime'']) = None"
    by (simp add: default_runtime_after_update testOptions_simps testConfigV1_simps E
        del: GetPath.simps)
  have C: "GetPath (Tree (UpdateConfig (testConfigV1 [] True) ?o))
     (containerdPath @ [''default_runtime''])
     = Some (TTree (defaultRuntimeV1 ''/test/runtime/dir/nvidia-container-runtime''))"
    by (simp add: default_runtime_after_update testOptions_simps testConfigV1_simps inh
        inlined_entry binaryPath_def del: GetPath.simps)
       (simp add: defaultRuntimeV1_def defaultEntry_def)
  have F: "defaultRuntimeV1 ''/test/runtime/dir/nvidia-container-runtime''
     \<noteq> expectedRuntimeV1 ''/test/runtime/dir/nvidia-container-runtime''"
    by (simp add: defaultRuntimeV1_def expectedRuntimeV1_def)
  from A B C D F show ?thesis by blast
qed

subsection \<open>The tables of the tests\<close>

text \<open>
  The model of update and revert gives the documents that the tests expect. The keys of
  a table are listed in the order in which the model writes them.
\<close>

lemma inheritedEntry_document:
  "inheritedEntry (configDocument rs d) rtype =
     (case map_of rs ''runc'' of Some (TTree runc) \<Rightarrow> runc | _ \<Rightarrow> defaultEntry rtype)"
  by (simp add: inheritedEntry_def document_runtime del: GetPath.simps)

lemma runtimeEntry_default:
  "runtimeEntry (defaultEntry testRuntimeType) p = expectedRuntimeV1 p"
  by (simp add: runtimeEntry_def defaultEntry_def expectedRuntimeV1_def subtree_def)

lemma UpdateConfig_empty_document:
  assumes "Tree c = []" and "\<not> setAsDefault opts" and "plainRuntimeName opts \<noteq> ''runc''"
  shows "Tree (UpdateConfig c opts) =
     configDocument
       (map (\<lambda>r. (runtimeName r, TTree (runtimeEntry (defaultEntry (RuntimeType c)) (runtimePath r))))
          (GetRuntimes opts)) []"
proof -
  let ?n0 = "plainRuntimeName opts"
  let ?e = "\<lambda>b. TTree (runtimeEntry (defaultEntry (RuntimeType c)) (binaryPath (runtimeDir opts) b))"
  define c1 where "c1 = AddRuntime c ?n0 (binaryPath (runtimeDir opts) ''nvidia-container-runtime'') False"
  define c2 where "c2 = AddRuntime c1 ''nvidia-experimental''
     (binaryPath (runtimeDir opts) ''nvidia-container-runtime.experimental'') False"
  define c3 where "c3 = AddRuntime c2 ''nvidia-cdi''
     (binaryPath (runtimeDir opts) ''nvidia-container-runtime.cdi'') False"
  define c4 where "c4 = AddRuntime c3 ''nvidia-legacy''
     (binaryPath (runtimeDir opts) ''nvidia-container-runtime.legacy'') False"
  have ne: "?n0 \<noteq> ''nvidia-experimental''" "?n0 \<noteq> ''nvidia-cdi''" "?n0 \<noteq> ''nvidia-legacy''"
    using plainRuntimeName_not_mode [of opts] by auto
  have rc: "?n0 \<noteq> ''runc''" "''runc'' \<noteq> ?n0" using assms(3) by auto
  have R: "RuntimeType c1 = RuntimeType c" "RuntimeType c2 = RuntimeType c"
    "RuntimeType c3 = RuntimeType c"
    by (simp_all add: c1_def c2_def c3_def)
  have T1: "Tree c1 = configDocument [(?n0, ?e ''nvidia-container-runtime'')] []"
    unfolding c1_def by (subst AddRuntime_empty [OF assms(1)]) (simp add: defaultKeys_def)
  have T2: "Tree c2 = configDocument [(?n0, ?e ''nvidia-container-runtime''),
      (''nvidia-experimental'', ?e ''nvidia-container-runtime.experimental'')] []"
    unfolding c2_def
    by (subst AddRuntime_document [OF T1])
       (simp add: defaultKeys_def T1 R inheritedEntry_document ne rc)
  have T3: "Tree c3 = configDocument [(?n0, ?e ''nvidia-container-runtime''),
      (''nvidia-experimental'', ?e ''nvidia-container-runtime.experimental''),
      (''nvidia-cdi'', ?e ''nvidia-container-runtime.cdi'')] []"
    unfolding c3_def
    by (subst AddRuntime_document [OF T2])
       (simp add: defaultKeys_def T2 R inheritedEntry_document ne rc)
  have T4: "Tree c4 = configDocument [(?n0, ?e ''nvidia-container-runtime''),
      (''nvidia-experimental'', ?e ''nvidia-container-runtime.experimental''),
      (''nvidia-cdi'', ?e ''nvidia-container-runtime.cdi''),
      (''nvidia-legacy'', ?e ''nvidia-container-runtime.legacy'')] []"
    unfolding c4_def
    by (subst AddRuntime_document [OF T3])
       (simp add: defaultKeys_def T3 R inheritedEntry_document ne rc)
  have "UpdateConfig c opts = c4"
    using assms(2)
    by (simp add: UpdateConfig_def GetRuntimes_four addRuntimes_four newRuntime_def
        c1_def c2_def c3_def c4_def)
  with T4 show ?thesis
    by (simp add: GetRuntimes_four newRuntime_def)
qed

lemma TestUpdateV1Config_document:
  assumes "plainRuntimeName (testOptions False False class) = n0" and "n0 \<noteq> ''runc''"
  shows "Tree (UpdateConfig (testConfigV1 [] False) (testOptions False False class)) =
     configDocument
       [(n0, TTree (expectedRuntimeV1 ''/test/runtime/dir/nvidia-container-runtime'')),
        (''nvidia-experimental'',
           TTree (expectedRuntimeV1 ''/test/runtime/dir/nvidia-container-runtime.experimental'')),
        (''nvidia-cdi'',
           TTree (expectedRuntimeV1 ''/test/runtime/dir/nvidia-container-runtime.cdi'')),
        (''nvidia-legacy'',
           TTree (expectedRuntimeV1 ''/test/runtime/dir/nvidia-container-runtime.legacy''))] []"
proof -
  let ?o = "testOptions False False class"
  have "Tree (UpdateConfig (testConfigV1 [] False) ?o) =
     configDocument
       (map (\<lambda>r. (runtimeName r,
                   TTree (runtimeEntry (defaultEntry (RuntimeType (testConfigV1 [] False)))
                            (runtimePath r))))
          (GetRuntimes ?o)) []"
    using assms
    by (intro UpdateConfig_empty_document) (simp_all add: testConfigV1_simps testOptions_simps)
  then show ?thesis
    unfolding GetRuntimes_four assms(1)
    by (simp add: newRuntime_def testConfigV1_simps testOptions_simps
        runtimeEntry_default binaryPath_def)
qed

lemma testOptions_plain:
  "plainRuntimeName (testOptions legacy dflt ''nvidia'') = ''nvidia''"
  "plainRuntimeName (testOptions legacy dflt ''NAME'') = ''NAME''"
  "plainRuntimeName (testOptions legacy dflt ''nvidia-experimental'') = ''nvidia''"
  by (simp_all add: plainRuntimeName_def testOptions_simps runtimeModes_def modeRuntimeName_def
      defaultRuntimeName_def)

lemma TestUpdateV1Config_rows:
  "Tree (UpdateConfig (testConfigV1 [] False) (testOptions False False ''nvidia'')) =
     configDocument
       [(''nvidia'', TTree (expectedRuntimeV1 ''/test/runtime/dir/nvidia-container-runtime'')),
        (''nvidia-experimental'',
           TTree (expectedRuntimeV1 ''/test/runtime/dir/nvidia-container-runtime.experimental'')),
        (''nvidia-cdi'',
           TTree (expectedRuntimeV1 ''/test/runtime/dir/nvidia-container-runtime.cdi'')),
        (''nvidia-legacy'',
           TTree (expectedRuntimeV1 ''/test/runtime/dir/nvidia-container-runtime.legacy''))] []"
  "Tree (UpdateConfig (testConfigV1 [] False) (testOptions False False ''NAME'')) =
     configDocument
       [(''NAME'', TTree (expectedRuntimeV1 ''/test/runtime/dir/nvidia-container-runtime'')),
        (''nvidia-experimental'',
           TTree (expectedRuntimeV1 ''/test/runtime/dir/nvidia-container-runtime.experimental'')),
        (''nvidia-cdi'',
           TTree (expectedRuntimeV1 ''/test/runtime/dir/nvidia-container-runtime.cdi'')),
        (''nvidia-legacy'',
           TTree (expectedRuntimeV1 ''/test/runtime/dir/nvidia-container-runtime.legacy''))] []"
  "Tree (UpdateConfig (testConfigV1 [] False) (testOptions False False ''nvidia-experimental'')) =
     configDocument
       [(''nvidia'', TTree (expectedRuntimeV1 ''/test/runtime/dir/nvidia-container-runtime'')),
        (''nvidia-experimental'',
           TTree (expectedRuntimeV1 ''/test/runtime/dir/nvidia-container-runtime.experimental'')),
        (''nvidia-cdi'',
           TTree (expectedRuntimeV1 ''/test/runtime/dir/nvidia-container-runtime.cdi'')),
        (''nvidia-legacy'',
           TTree (expectedRuntimeV1 ''/test/runtime/dir/nvidia-container-runtime.legacy''))] []"
  by (rule TestUpdateV1Config_document, rule testOptions_plain, simp)+

lemma RemoveRuntime_no_plugins:
  assumes "map_of (Tree c) ''plugins'' = None"
  shows "Tree (RemoveRuntime c n) =
           (if Keys (Tree c) = [''version''] then [] else Tree c)"
proof -
  have G: "GetPath (Tree c) (''plugins'' # ks) = None" for ks
    using assms by (cases ks) simp_all
  have D: "DeletePath (Tree c) (''plugins'' # k # ks) = Tree c" for k ks
    using assms by simp
  have K: "deleteKey ''version'' t = []" if "Keys t = [''version'']" for t :: tree
    using that by (cases t) (auto simp: Keys_def deleteKey_def)
  show ?thesis
    unfolding RemoveRuntime_def Let_def path_defs pruneEmpty_def
    by (simp add: G D K del: GetPath.simps DeletePath.simps)
qed

lemma revertOptions_runtimes:
  "GetRuntimes revertOptions =
     [newRuntime revertOptions ''nvidia'' ''nvidia-container-runtime'',
      newRuntime revertOptions ''nvidia-experimental'' ''nvidia-container-runtime.experimental'',
      newRuntime revertOptions ''nvidia-cdi'' ''nvidia-container-runtime.cdi'',
      newRuntime revertOptions ''nvidia-legacy'' ''nvidia-container-runtime.legacy'']"
  by (simp add: GetRuntimes_four plainRuntimeName_def nvidiaRuntimeName_def revertOptions_def
      runtimeModes_def modeRuntimeName_def)

lemma newRuntime_name: "runtimeName (newRuntime opts m b) = m"
  by (simp add: newRuntime_def)

lemma RevertConfig_no_plugins:
  assumes "map_of t ''plugins'' = None" and "Keys t = [] \<or> Keys t = [''version'']"
  shows "Tree (RevertConfig (testConfigV1 t legacy) revertOptions) = []"
proof -
  have one: "Tree (RemoveRuntime c n) = []"
    if "map_of (Tree c) ''plugins'' = None" "Keys (Tree c) = [] \<or> Keys (Tree c) = [''version'']"
    for c n
    using that RemoveRuntime_no_plugins [OF that(1), of n] by (auto simp: Keys_def)
  have again: "Tree (RemoveRuntime c n) = []" if "Tree c = []" for c n
    using that by (intro one) (simp_all add: Keys_def)
  have "Tree (RemoveRuntime (testConfigV1 t legacy) ''nvidia'') = []"
    using assms by (intro one) (simp_all add: testConfigV1_simps)
  then show ?thesis
    unfolding RevertConfig_def revertOptions_runtimes removeRuntimes_four newRuntime_name
    by (rule again [OF again [OF again]])
qed

lemma TestRevertV1Config_rows:
  "Tree (RevertConfig (testConfigV1 [] False) revertOptions) = []"
  "Tree (RevertConfig (testConfigV1 [(''version'', TInt 1)] False) revertOptions) = []"
  "Tree (RevertConfig
     (testConfigV1
        (configDocument
           [(''nvidia'', TTree (runtimeMapV1 ''/test/runtime/dir/nvidia-container-runtime'')),
            (''nvidia-experimental'',
               TTree (runtimeMapV1 ''/test/runtime/dir/nvidia-container-runtime.experimental'')),
            (''nvidia-cdi'', TTree (runtimeMapV1 ''/test/runtime/dir/nvidia-container-runtime.cdi'')),
            (''nvidia-legacy'',
               TTree (runtimeMapV1 ''/test/runtime/dir/nvidia-container-runtime.legacy''))] [])
        False) revertOptions) = []"
proof -
  show "Tree (RevertConfig (testConfigV1 [] False) revertOptions) = []"
    by (rule RevertConfig_no_plugins) (simp_all add: Keys_def)
  show "Tree (RevertConfig (testConfigV1 [(''version'', TInt 1)] False) revertOptions) = []"
    by (rule RevertConfig_no_plugins) (simp_all add: Keys_def)
  have b: "binaryName (Some (TTree (runtimeMapV1 p))) = Some p" for p
    by (simp add: binaryName_def runtimeMapV1_def)
  have f: "defaultForm True {''nvidia'', ''nvidia-experimental'', ''nvidia-cdi'', ''nvidia-legacy''}
     {''/test/runtime/dir/nvidia-container-runtime'',
      ''/test/runtime/dir/nvidia-container-runtime.experimental'',
      ''/test/runtime/dir/nvidia-container-runtime.cdi'',
      ''/test/runtime/dir/nvidia-container-runtime.legacy''} []"
    by (simp add: defaultForm_def)
  show "Tree (RevertConfig
     (testConfigV1
        (configDocument
           [(''nvidia'', TTree (runtimeMapV1 ''/test/runtime/dir/nvidia-container-runtime'')),
            (''nvidia-experimental'',
               TTree (runtimeMapV1 ''/test/runtime/dir/nvidia-container-runtime.experimental'')),
            (''nvidia-cdi'', TTree (runtimeMapV1 ''/test/runtime/dir/nvidia-container-runtime.cdi'')),
            (''nvidia-legacy'',
               TTree (runtimeMapV1 ''/test/runtime/dir/nvidia-container-runtime.legacy''))] [])
        False) revertOptions) = []"
    unfolding RevertConfig_def revertOptions_runtimes removeRuntimes_four newRuntime_name
    by (rule revert_four [OF _ b b b b _ f]) (simp_all add: testConfigV1_simps)
qed

lemma runtimeEntry_runc:
  "runtimeEntry (runcEntryV1 binary) p =
     [(''runtime_type'', TString ''runc_runtime_type''),
      (''runtime_root'', TString ''runc_runtime_root''),
      (''runtime_engine'', TString ''runc_runtime_engine''),
      (''privileged_without_host_devices'', TBool True),
      (''options'', TTree [(''runc-option'', TString ''value''),
                           (''BinaryName'', TString p), (''Runtime'', TString p)]),
      (''container_annotations'', TList [TString ''cdi.k8s.io/*''])]"
  by (simp add: runtimeEntry_def runcEntryV1_def subtree_def)

lemma TestUpdateV1ConfigWithRuncPresent_entries:
  assumes "r \<in> set (GetRuntimes (testOptions False False class))"
    and "class \<in> {''nvidia'', ''NAME'', ''nvidia-experimental''}"
  shows "GetPath (Tree (UpdateConfig (testConfigV1 (runcConfigMapV1 ''/runc-binary'') False)
                          (testOptions False False class)))
           (runtimesPath @ [runtimeName r])
         = Some (TTree (runtimeEntry (runcEntryV1 ''/runc-binary'') (runtimePath r)))"
proof -
  let ?c = "testConfigV1 (runcConfigMapV1 ''/runc-binary'') False"
  have n: "''runc'' \<notin> set (map runtimeName (GetRuntimes (testOptions False False class)))"
    using assms(2)
    by (auto simp add: GetRuntimes_four newRuntime_name testOptions_plain)
  have "inheritedEntry (Tree ?c) (RuntimeType ?c) = runcEntryV1 ''/runc-binary''"
    by (simp add: inheritedEntry_def testConfigV1_simps runcConfigMapV1_def path_defs)
  then show ?thesis
    using addRuntimes_entry [OF GetRuntimes_distinct assms(1) n, of ?c]
    by (simp add: UpdateConfig_def)
qed

end
